theory Spec2Isabelle
  imports Main "HOL-Library.Sublist" "HOL-Library.AList"
begin

section \<open>Text and values\<close>

text \<open>
  A Python \<^verbatim>\<open>str\<close> is a sequence of Unicode code points, so it is modelled as a list
  of natural numbers; \<open>lit\<close> turns an ASCII literal into such a list. The escaper
  iterates over code points (\<^verbatim>\<open>for ch in s\<close>), and so does the model.
\<close>

type_synonym pystr = "nat list"

definition lit :: "string \<Rightarrow> pystr" where
  "lit s = map of_char s"

definition backslash :: char where
  "backslash = CHR 0x5C"

definition newline :: nat where
  "newline = 10"

text \<open>
  A value that reaches this code is \<^verbatim>\<open>None\<close>, a \<^verbatim>\<open>str\<close>, or some other object.
  Of another object the code only ever asks its truth value (\<^verbatim>\<open>if maybe_path:\<close>)
  and its \<^verbatim>\<open>str()\<close>, so \<open>PyObj\<close> carries exactly these two.
\<close>

datatype pyval = PyNone | PyStr pystr | PyObj bool pystr

fun py_str :: "pyval \<Rightarrow> pystr" where
  "py_str PyNone = lit ''None''"
| "py_str (PyStr s) = s"
| "py_str (PyObj t s) = s"

section \<open>The escaper: \<^verbatim>\<open>latex_escape\<close> (render_cv.py, chief_render_cv.py)\<close>

text \<open>
  The dictionary literal \<^verbatim>\<open>replacements\<close> of the source, in the order it is written.
  Both modules define the same function with the same table.
\<close>

definition substitutions :: "(nat \<times> pystr) list" where
  "substitutions =
    [(of_char backslash, lit (backslash # ''textbackslash{}'')),
     (of_char CHR ''&'', lit [backslash, CHR ''&'']),
     (of_char CHR ''%'', lit [backslash, CHR ''%'']),
     (of_char CHR ''$'', lit [backslash, CHR ''$'']),
     (of_char CHR ''#'', lit [backslash, CHR ''#'']),
     (of_char CHR ''_'', lit [backslash, CHR ''_'']),
     (of_char CHR ''{'', lit [backslash, CHR ''{'']),
     (of_char CHR ''}'', lit [backslash, CHR ''}'']),
     (of_char CHR ''~'', lit (backslash # ''textasciitilde{}'')),
     (of_char CHR ''^'', lit (backslash # ''textasciicircum{}''))]"

definition replacements :: "nat \<rightharpoonup> pystr" where
  "replacements = map_of substitutions"

text \<open>\<^verbatim>\<open>d.get(k, dflt)\<close>\<close>

definition dict_get :: "('k \<rightharpoonup> 'v) \<Rightarrow> 'k \<Rightarrow> 'v \<Rightarrow> 'v" where
  "dict_get d k dflt = (case d k of None \<Rightarrow> dflt | Some v \<Rightarrow> v)"

text \<open>
  \<^verbatim>\<open>if value is None: return ""\<close>, then
  \<^verbatim>\<open>"".join(replacements.get(ch, ch) for ch in str(value))\<close>.
\<close>

definition latex_escape :: "pyval \<Rightarrow> pystr" where
  "latex_escape v =
     (if v = PyNone then []
      else concat (map (\<lambda>ch. dict_get replacements ch [ch]) (py_str v)))"

subsection \<open>The specification's reading of the escaper\<close>

text \<open>
  Stated from the specification's words, to be compared with \<open>latex_escape\<close>: the
  substitutions are applied one after the other in the stated priority, the backslash
  first. A \<open>Raw\<close> piece is a character of the input that no substitution has touched yet;
  a \<open>Done\<close> piece is text that a substitution has emitted, which later substitutions
  leave alone (what they introduce is never escaped again).
\<close>

datatype piece = Raw nat | Done pystr

definition subst_pass :: "nat \<times> pystr \<Rightarrow> piece \<Rightarrow> piece" where
  "subst_pass cr p = (if p = Raw (fst cr) then Done (snd cr) else p)"

fun flatten :: "piece \<Rightarrow> pystr" where
  "flatten (Raw c) = [c]"
| "flatten (Done r) = r"

definition escape_in_order :: "pystr \<Rightarrow> pystr" where
  "escape_in_order s =
     concat (map flatten
       (foldl (\<lambda>ps cr. map (subst_pass cr) ps) (map Raw s) substitutions))"

text \<open>
  Stated from the specification's words: a text has no unescaped special character when
  it can be read from left to right as a sequence of ordinary characters and of the fixed
  escape sequences, so that every special character in it lies inside one of these
  sequences. \<open>strip_escape\<close> removes the escape sequence a text starts with, if any.
\<close>

definition special_chars :: "nat list" where
  "special_chars = map fst substitutions"

definition escape_sequences :: "pystr list" where
  "escape_sequences = map snd substitutions"

fun strip_prefix :: "'a list \<Rightarrow> 'a list \<Rightarrow> 'a list option" where
  "strip_prefix [] ys = Some ys"
| "strip_prefix (x # xs) [] = None"
| "strip_prefix (x # xs) (y # ys) = (if x = y then strip_prefix xs ys else None)"

fun strip_escape :: "pystr list \<Rightarrow> pystr \<Rightarrow> pystr option" where
  "strip_escape [] s = None"
| "strip_escape (q # qs) s =
     (case strip_prefix q s of Some rest \<Rightarrow> Some rest | None \<Rightarrow> strip_escape qs s)"

function no_unescaped :: "pystr \<Rightarrow> bool" where
  "no_unescaped [] = True"
| "no_unescaped (c # cs) =
     (if c \<in> set special_chars
      then (case strip_escape escape_sequences (c # cs) of
              None \<Rightarrow> False
            | Some rest \<Rightarrow> no_unescaped rest)
      else no_unescaped cs)"
  by pat_completeness auto
termination
proof (relation "measure length")
  show "wf (measure length)" by simp
next
  fix c :: nat and cs rest :: pystr
  assume found: "strip_escape escape_sequences (c # cs) = Some rest"
  have pre: "length s = length q + length r" if "strip_prefix q s = Some r"
    for q s r :: pystr
    using that by (induction q s rule: strip_prefix.induct) (auto split: if_splits)
  have shorter: "length r < length s"
    if "strip_escape qs s = Some r" and "\<forall>q \<in> set qs. q \<noteq> []" for qs s r
    using that
  proof (induction qs)
    case Nil
    then show ?case by simp
  next
    case (Cons q qs)
    show ?case
    proof (cases "strip_prefix q s")
      case None
      with Cons show ?thesis by simp
    next
      case (Some r')
      with Cons.prems have "r' = r" and "q \<noteq> []" by simp_all
      with Some pre [of q s r] show ?thesis by simp
    qed
  qed
  have "\<forall>q \<in> set escape_sequences. q \<noteq> []"
    by (simp add: escape_sequences_def substitutions_def lit_def)
  with found have "length rest < length (c # cs)" by (rule shorter)
  then show "(rest, c # cs) \<in> measure length" by simp
next
  fix c :: nat and cs :: pystr
  show "(cs, c # cs) \<in> measure length" by simp
qed

section \<open>Files, paths and exceptions\<close>

text \<open>
  The file system is a list of entries, each a location with its node, read as a map
  (the first entry of a location counts). A location is the list of names that leads
  from the root to an entry; the root itself (the empty list) is always a directory.
  The order of the list is the order in which a directory lists its entries. Symbolic
  links are outside the model, and every directory can be searched and listed. Of the
  limits of the operating system the model has the one on the length of a file name.
\<close>

type_synonym bytes = "nat list"

datatype node = Dir | File bytes

type_synonym location = "pystr list"

text \<open>
  Exceptions are values. \<open>RuntimeError\<close> is raised by the code of this repository and
  carries its message. \<open>Foreign\<close> stands for any exception that jinja2 raises, given by
  its \<^verbatim>\<open>str()\<close>. \<open>OSError\<close> is raised by a file operation, with the error number that
  decides its Python class (\<^verbatim>\<open>FileNotFoundError\<close> for \<open>ENOENT\<close>,
  \<^verbatim>\<open>FileExistsError\<close> for \<open>EEXIST\<close>, \<^verbatim>\<open>NotADirectoryError\<close> for \<open>ENOTDIR\<close>,
  \<^verbatim>\<open>IsADirectoryError\<close> for \<open>EISDIR\<close>, \<^verbatim>\<open>PermissionError\<close> for \<open>EPERM\<close>, and
  plain \<^verbatim>\<open>OSError\<close> for \<open>ENAMETOOLONG\<close>, \<open>ENOTEMPTY\<close>, \<open>EINVAL\<close> and \<open>EBUSY\<close>).
  \<open>TypeError\<close> is what \<^verbatim>\<open>Path(x)\<close> raises for an \<open>x\<close> that is not a string,
  \<open>ValueError\<close> what a file operation raises for a path with an embedded null
  character, \<open>UnicodeEncodeError\<close> what encoding a lone surrogate raises (in Python a
  subclass of \<^verbatim>\<open>ValueError\<close>), \<open>SameFileError\<close> what \<^verbatim>\<open>shutil.copyfile\<close> raises
  when source and destination are the same file.
\<close>

datatype os_error =
    ENOENT | EEXIST | ENOTDIR | EISDIR | ENAMETOOLONG | ENOTEMPTY | EINVAL | EBUSY | EPERM

datatype exn =
    RuntimeError pystr
  | Foreign pystr
  | OSError os_error
  | TypeError
  | ValueError
  | UnicodeEncodeError
  | SameFileError

subsection \<open>pathlib\<close>

text \<open>
  A \<^verbatim>\<open>pathlib.Path\<close> on POSIX: whether it starts at the root, and its components.
  \<open>Path s\<close> parses a string as pathlib does: it splits at slashes and drops empty
  components and single dots. (A path that starts with exactly two slashes, which
  pathlib keeps apart, is read like one that starts with one.)
\<close>

record ppath =
  anchored :: bool
  parts :: "pystr list"

definition slash :: nat where
  "slash = of_char CHR ''/''"

definition dotdot :: pystr where
  "dotdot = lit ''..''"

fun split_on :: "'a \<Rightarrow> 'a list \<Rightarrow> 'a list list" where
  "split_on d [] = [[]]"
| "split_on d (x # xs) =
     (if x = d then [] # split_on d xs
      else (case split_on d xs of
              [] \<Rightarrow> [[x]]
            | y # ys \<Rightarrow> (x # y) # ys))"

definition Path :: "pystr \<Rightarrow> ppath" where
  "Path s =
     \<lparr>anchored = (s \<noteq> [] \<and> hd s = slash),
      parts = filter (\<lambda>c. c \<noteq> [] \<and> c \<noteq> lit ''.'') (split_on slash s)\<rparr>"

text \<open>\<^verbatim>\<open>a / b\<close>: an absolute right operand replaces the left one.\<close>

definition joinpath :: "ppath \<Rightarrow> ppath \<Rightarrow> ppath" where
  "joinpath a b =
     (if anchored b then b
      else \<lparr>anchored = anchored a, parts = parts a @ parts b\<rparr>)"

text \<open>\<^verbatim>\<open>p.name\<close>: the last component, or the empty string when there is none.\<close>

definition name :: "ppath \<Rightarrow> pystr" where
  "name p = (if parts p = [] then [] else last (parts p))"

text \<open>\<^verbatim>\<open>sep.join(xs)\<close> and \<^verbatim>\<open>str(p)\<close>.\<close>

fun str_join :: "pystr \<Rightarrow> pystr list \<Rightarrow> pystr" where
  "str_join sep [] = []"
| "str_join sep [x] = x"
| "str_join sep (x # y # ys) = x @ sep @ str_join sep (y # ys)"

definition path_str :: "ppath \<Rightarrow> pystr" where
  "path_str p =
     (if anchored p then [slash] @ str_join [slash] (parts p)
      else if parts p = [] then lit ''.''
      else str_join [slash] (parts p))"

text \<open>
  The UTF-8 encoding of a code point and of a text; a surrogate has none.
\<close>

definition utf8_char :: "nat \<Rightarrow> bytes option" where
  "utf8_char cp =
     (if cp < 0x80 then Some [cp]
      else if cp < 0x800 then Some [0xC0 + cp div 0x40, 0x80 + cp mod 0x40]
      else if 0xD800 \<le> cp \<and> cp \<le> 0xDFFF then None
      else if cp < 0x10000 then
        Some [0xE0 + cp div 0x1000, 0x80 + cp div 0x40 mod 0x40, 0x80 + cp mod 0x40]
      else if cp < 0x110000 then
        Some [0xF0 + cp div 0x40000, 0x80 + cp div 0x1000 mod 0x40,
              0x80 + cp div 0x40 mod 0x40, 0x80 + cp mod 0x40]
      else None)"

definition utf8_encode :: "pystr \<Rightarrow> bytes option" where
  "utf8_encode s = map_option concat (those (map utf8_char s))"

text \<open>
  How a file operation reads a path given as a \<^verbatim>\<open>str\<close>: the text is encoded with
  \<^verbatim>\<open>os.fsencode\<close> (UTF-8 with \<^verbatim>\<open>surrogateescape\<close>, which maps the surrogates
  U+DC80 to U+DCFF to the bytes 128 to 255 and raises \<^verbatim>\<open>UnicodeEncodeError\<close> for any
  other surrogate), and a null byte in the result raises \<^verbatim>\<open>ValueError\<close>. A file name
  may be at most \<open>name_max\<close> bytes long.
\<close>

definition fs_char :: "nat \<Rightarrow> bytes option" where
  "fs_char cp =
     (if 0xDC80 \<le> cp \<and> cp \<le> 0xDCFF then Some [cp - 0xDC00] else utf8_char cp)"

definition fsencode :: "pystr \<Rightarrow> bytes option" where
  "fsencode s = map_option concat (those (map fs_char s))"

definition path_converter :: "pystr \<Rightarrow> exn + bytes" where
  "path_converter s =
     (case fsencode s of
        None \<Rightarrow> Inl UnicodeEncodeError
      | Some bs \<Rightarrow> if 0 \<in> set bs then Inl ValueError else Inr bs)"

definition name_max :: nat where
  "name_max = 255"

definition name_too_long :: "pystr \<Rightarrow> bool" where
  "name_too_long c = (case fsencode c of None \<Rightarrow> False | Some bs \<Rightarrow> name_max < length bs)"

subsection \<open>The world\<close>

text \<open>
  What a call can read or change: the file system, the current directory, the
  directory and the names that \<^verbatim>\<open>tempfile\<close> will use (the names its random generator
  yields next, in order), the entries that the process is not permitted to remove, the
  dictionaries on the heap (every address holds a dictionary; the addresses from
  \<open>next_addr\<close> on are not yet allocated), what was printed, and the processes that were
  run (command and working directory).
\<close>

type_synonym fsmap = "(location \<times> node) list"

type_synonym dict = "pystr \<rightharpoonup> pyval"

type_synonym template = "dict \<Rightarrow> pystr + pystr"

record proc =
  returncode :: int
  stdout :: pystr

record jinja_env =
  loader :: pystr
  autoescape :: bool
  trim_blocks :: bool
  lstrip_blocks :: bool
  block_start_string :: pystr
  block_end_string :: pystr
  comment_start_string :: pystr
  comment_end_string :: pystr
  filters :: "(pystr \<times> (pyval \<Rightarrow> pystr)) list"

record world =
  files :: fsmap
  cwd :: location
  tempdir :: pystr
  tmp_names :: "pystr list"
  locked :: "location list"
  heap :: "nat \<Rightarrow> dict"
  next_addr :: nat
  console :: "pystr list"
  spawned :: "(pystr list \<times> pystr) list"

text \<open>
  The programs outside this repository are parameters, and every theorem holds for
  all of them. \<open>run_process cmd dir fs cwd\<close> is \<^verbatim>\<open>subprocess.run\<close> with
  \<^verbatim>\<open>stdout=PIPE, stderr=STDOUT, text=True, check=False\<close>: it either raises (the text
  of the exception on the left) or completes with an exit status and the combined output,
  and it leaves a file system of its choice. \<open>load_template\<close> is jinja2 looking a
  template up; a template maps the keyword arguments of \<^verbatim>\<open>render\<close> to the rendered text
  or to the text of the exception it raises.
\<close>

record platform =
  run_process :: "pystr list \<Rightarrow> pystr \<Rightarrow> fsmap \<Rightarrow> location \<Rightarrow> (pystr + proc) \<times> fsmap"
  load_template :: "fsmap \<Rightarrow> location \<Rightarrow> jinja_env \<Rightarrow> pystr \<Rightarrow> pystr + template"

subsection \<open>Statements that may raise\<close>

text \<open>
  A statement takes the world and returns the exception it raised or its value, and
  the world it leaves: the world is kept when an exception is raised. \<open>then_do\<close>
  sequences two statements; the second one is skipped when the first one raises.
\<close>

type_synonym 'a action = "world \<Rightarrow> (exn + 'a) \<times> world"

definition ret :: "'a \<Rightarrow> 'a action" where
  "ret x w = (Inr x, w)"

definition raise :: "exn \<Rightarrow> 'a action" where
  "raise e w = (Inl e, w)"

definition then_do :: "'a action \<Rightarrow> ('a \<Rightarrow> 'b action) \<Rightarrow> 'b action" where
  "then_do m f w = (case m w of (Inl e, w') \<Rightarrow> (Inl e, w') | (Inr x, w') \<Rightarrow> f x w')"

subsection \<open>File operations of the operating system and the standard library\<close>

text \<open>
  \<open>walk\<close> follows the components of a path from a location, as the operating system
  does: every component is looked up in a directory, two dots lead to the parent, and
  a name that is too long fails with \<open>ENAMETOOLONG\<close> where it is looked up. \<open>locate\<close>
  gives the location a path denotes (relative paths start at the current directory);
  the text of the path is converted first, so a path that cannot be converted raises
  before anything is looked up. \<open>stat\<close> gives the node found there.
\<close>

definition node_at :: "fsmap \<Rightarrow> location \<Rightarrow> node option" where
  "node_at fs l = (if l = [] then Some Dir else map_of fs l)"

fun walk :: "fsmap \<Rightarrow> location \<Rightarrow> pystr list \<Rightarrow> os_error + location" where
  "walk fs cur [] = Inr cur"
| "walk fs cur (c # cs) =
     (case node_at fs cur of
        None \<Rightarrow> Inl ENOENT
      | Some (File b) \<Rightarrow> Inl ENOTDIR
      | Some Dir \<Rightarrow>
          (if c \<noteq> dotdot \<and> name_too_long c then Inl ENAMETOOLONG
           else walk fs (if c = dotdot then butlast cur else cur @ [c]) cs))"

definition abs_parts :: "world \<Rightarrow> ppath \<Rightarrow> pystr list" where
  "abs_parts w p = (if anchored p then [] else cwd w) @ parts p"

definition locate :: "world \<Rightarrow> ppath \<Rightarrow> exn + location" where
  "locate w p =
     (case path_converter (path_str p) of
        Inl e \<Rightarrow> Inl e
      | Inr bs \<Rightarrow>
          (case walk (files w) [] (abs_parts w p) of
             Inl e \<Rightarrow> Inl (OSError e)
           | Inr l \<Rightarrow> Inr l))"

definition stat :: "world \<Rightarrow> ppath \<Rightarrow> exn + node" where
  "stat w p =
     (case locate w p of
        Inl e \<Rightarrow> Inl e
      | Inr l \<Rightarrow>
          (case node_at (files w) l of
             None \<Rightarrow> Inl (OSError ENOENT)
           | Some n \<Rightarrow> Inr n))"

text \<open>
  \<^verbatim>\<open>Path.exists()\<close> calls \<^verbatim>\<open>stat\<close>. It is true for every kind of entry, directories
  included. It is false when \<^verbatim>\<open>stat\<close> fails with an error that pathlib ignores
  (\<open>ENOENT\<close> and \<open>ENOTDIR\<close>; also \<^verbatim>\<open>EBADF\<close> and \<^verbatim>\<open>ELOOP\<close>, which do not occur here)
  or with a \<^verbatim>\<open>ValueError\<close>; every other error is raised, so a name that is too long
  makes it raise \<^verbatim>\<open>OSError\<close>. \<^verbatim>\<open>os.path.isdir(s)\<close> is false whenever \<^verbatim>\<open>stat\<close>
  fails, and for the empty string.
\<close>

definition ignore_error :: "os_error \<Rightarrow> bool" where
  "ignore_error e = (e = ENOENT \<or> e = ENOTDIR)"

definition exists :: "world \<Rightarrow> ppath \<Rightarrow> exn + bool" where
  "exists w p =
     (case stat w p of
        Inr n \<Rightarrow> Inr True
      | Inl (OSError e) \<Rightarrow> if ignore_error e then Inr False else Inl (OSError e)
      | Inl ValueError \<Rightarrow> Inr False
      | Inl UnicodeEncodeError \<Rightarrow> Inr False
      | Inl e \<Rightarrow> Inl e)"


text \<open>
  \<^verbatim>\<open>Path.resolve()\<close> makes the path absolute and removes the double dots. It goes
  through the components from left to right and calls \<^verbatim>\<open>lstat\<close> on each prefix that
  a component other than two dots extends; a failure of the operating system is taken
  as "not a link" and the walk goes on, but a component that cannot be converted makes
  \<^verbatim>\<open>lstat\<close> raise \<^verbatim>\<open>ValueError\<close> or \<^verbatim>\<open>UnicodeEncodeError\<close>, which is not caught.
  Without symbolic links the result is computed on the text of the path.
  \<^verbatim>\<open>Path.cwd()\<close> is the current directory.
\<close>

fun realpath :: "location \<Rightarrow> pystr list \<Rightarrow> exn + location" where
  "realpath cur [] = Inr cur"
| "realpath cur (c # cs) =
     (if c = dotdot then realpath (butlast cur) cs
      else (case path_converter c of
              Inl e \<Rightarrow> Inl e
            | Inr bs \<Rightarrow> realpath (cur @ [c]) cs))"

definition resolve :: "world \<Rightarrow> ppath \<Rightarrow> exn + ppath" where
  "resolve w p =
     (case realpath (if anchored p then [] else cwd w) (parts p) of
        Inl e \<Rightarrow> Inl e
      | Inr l \<Rightarrow> Inr \<lparr>anchored = True, parts = l\<rparr>)"

definition path_cwd :: "world \<Rightarrow> ppath" where
  "path_cwd w = \<lparr>anchored = True, parts = cwd w\<rparr>"

text \<open>\<^verbatim>\<open>os.mkdir\<close>, which fails with \<open>EEXIST\<close> when the path exists.\<close>

definition os_mkdir :: "ppath \<Rightarrow> unit action" where
  "os_mkdir p w =
     (case locate w p of
        Inl e \<Rightarrow> (Inl e, w)
      | Inr l \<Rightarrow>
          (case node_at (files w) l of
             Some n \<Rightarrow> (Inl (OSError EEXIST), w)
           | None \<Rightarrow> (Inr (), w\<lparr>files := AList.update l Dir (files w)\<rparr>)))"

text \<open>
  \<^verbatim>\<open>tempfile.mkdtemp(prefix=pre)\<close>: for each candidate name in turn it tries to create
  \<^verbatim>\<open>os.path.join(gettempdir(), pre + name)\<close>; a name that exists already is skipped
  (\<^verbatim>\<open>except FileExistsError: continue\<close>), any other error is raised, and
  \<^verbatim>\<open>FileExistsError\<close> is raised when the candidates are used up (Python gives up
  after \<^verbatim>\<open>TMP_MAX\<close> of them). The path of the new directory is returned;
  \<^verbatim>\<open>gettempdir()\<close> is absolute and normalised, so \<^verbatim>\<open>os.path.abspath\<close> leaves the
  path as it is.
\<close>

definition os_path_join :: "pystr \<Rightarrow> pystr \<Rightarrow> pystr" where
  "os_path_join a b =
     (if b \<noteq> [] \<and> hd b = slash then b
      else if a = [] \<or> last a = slash then a @ b
      else a @ [slash] @ b)"

fun mkdtemp_loop :: "pystr \<Rightarrow> pystr list \<Rightarrow> pystr action" where
  "mkdtemp_loop pre [] w = (Inl (OSError EEXIST), w\<lparr>tmp_names := []\<rparr>)"
| "mkdtemp_loop pre (n # ns) w =
     (let file = os_path_join (tempdir w) (pre @ n) in
      case os_mkdir (Path file) w of
        (Inr u, w') \<Rightarrow> (Inr file, w'\<lparr>tmp_names := ns\<rparr>)
      | (Inl e, w') \<Rightarrow>
          (if e = OSError EEXIST then mkdtemp_loop pre ns w
           else (Inl e, w\<lparr>tmp_names := ns\<rparr>)))"

definition mkdtemp :: "pystr \<Rightarrow> pystr action" where
  "mkdtemp pre w = mkdtemp_loop pre (tmp_names w) w"

text \<open>
  \<^verbatim>\<open>p.write_text(text, encoding="utf-8")\<close> opens the file for writing, which creates
  or truncates it, and then writes the encoded text; when the text cannot be encoded
  the file stays empty. \<^verbatim>\<open>p.read_bytes()\<close> reads a regular file.
\<close>

definition open_w :: "world \<Rightarrow> ppath \<Rightarrow> exn + location" where
  "open_w w p =
     (case locate w p of
        Inl e \<Rightarrow> Inl e
      | Inr l \<Rightarrow> (case node_at (files w) l of Some Dir \<Rightarrow> Inl (OSError EISDIR) | _ \<Rightarrow> Inr l))"

definition write_text :: "ppath \<Rightarrow> pystr \<Rightarrow> unit action" where
  "write_text p text w =
     (case open_w w p of
        Inl e \<Rightarrow> (Inl e, w)
      | Inr l \<Rightarrow>
          (case utf8_encode text of
             None \<Rightarrow> (Inl UnicodeEncodeError, w\<lparr>files := AList.update l (File []) (files w)\<rparr>)
           | Some bs \<Rightarrow> (Inr (), w\<lparr>files := AList.update l (File bs) (files w)\<rparr>)))"

definition read_bytes :: "ppath \<Rightarrow> bytes action" where
  "read_bytes p w =
     (case stat w p of
        Inl e \<Rightarrow> (Inl e, w)
      | Inr Dir \<Rightarrow> (Inl (OSError EISDIR), w)
      | Inr (File b) \<Rightarrow> (Inr b, w))"

text \<open>
  \<^verbatim>\<open>shutil.copyfile(src, dst)\<close>. It first asks whether both paths denote the same
  file (\<^verbatim>\<open>_samefile\<close>, which takes an \<^verbatim>\<open>OSError\<close> of \<^verbatim>\<open>stat\<close> as "no" and lets
  every other exception through) and refuses to copy a file onto itself; it then calls
  \<^verbatim>\<open>stat\<close> on both paths to look for special files, again ignoring only
  \<^verbatim>\<open>OSError\<close>; then it opens the source for reading and the destination for
  writing, copies the bytes and returns \<^verbatim>\<open>dst\<close>.
\<close>

definition samefile :: "world \<Rightarrow> ppath \<Rightarrow> ppath \<Rightarrow> exn + bool" where
  "samefile w a b =
     (case stat w a of
        Inl (OSError e) \<Rightarrow> Inr False
      | Inl e \<Rightarrow> Inl e
      | Inr x \<Rightarrow>
          (case stat w b of
             Inl (OSError e) \<Rightarrow> Inr False
           | Inl e \<Rightarrow> Inl e
           | Inr y \<Rightarrow> Inr (locate w a = locate w b)))"

definition stat_probe :: "world \<Rightarrow> ppath \<Rightarrow> exn + unit" where
  "stat_probe w p =
     (case stat w p of
        Inl (OSError e) \<Rightarrow> Inr ()
      | Inl e \<Rightarrow> Inl e
      | Inr n \<Rightarrow> Inr ())"

definition copyfile :: "ppath \<Rightarrow> ppath \<Rightarrow> ppath action" where
  "copyfile src dst w =
     (case samefile w src dst of
        Inl e \<Rightarrow> (Inl e, w)
      | Inr True \<Rightarrow> (Inl SameFileError, w)
      | Inr False \<Rightarrow>
          (case stat_probe w src of
             Inl e \<Rightarrow> (Inl e, w)
           | Inr u \<Rightarrow>
               (case stat_probe w dst of
                  Inl e \<Rightarrow> (Inl e, w)
                | Inr u \<Rightarrow>
                    (case stat w src of
                       Inl e \<Rightarrow> (Inl e, w)
                     | Inr Dir \<Rightarrow> (Inl (OSError EISDIR), w)
                     | Inr (File b) \<Rightarrow>
                         (case open_w w dst of
                            Inl e \<Rightarrow> (Inl e, w)
                          | Inr l \<Rightarrow>
                              (Inr dst, w\<lparr>files := AList.update l (File b) (files w)\<rparr>))))))"












section \<open>The two render modules\<close>

text \<open>
  render_cv.py and chief_render_cv.py define \<^verbatim>\<open>RenderResult\<close>, \<^verbatim>\<open>_run\<close>,
  \<^verbatim>\<open>latex_escape\<close> and \<^verbatim>\<open>cleanup_workdir\<close> with the same bodies, so each is modelled
  once. An Isabelle name cannot start with an underscore: \<^verbatim>\<open>_run\<close>,
  \<^verbatim>\<open>_copy_asset_to_workdir\<close> and \<^verbatim>\<open>_resolve_asset_path\<close> lose theirs.
\<close>

record RenderResult =
  pdf_bytes :: bytes
  tex_str :: pystr
  workdir :: pystr

text \<open>
  \<^verbatim>\<open>_run(cmd, cwd)\<close> raises the \<^verbatim>\<open>RuntimeError\<close> it builds from the output
  (\<open>Run_RuntimeError\<close>, with the message) or lets through what \<^verbatim>\<open>subprocess.run\<close>
  raises (\<open>Run_Other\<close>, with the text of that exception). Its caller only takes the
  \<^verbatim>\<open>str()\<close> of either. Every call is recorded in \<open>spawned\<close>.
\<close>

datatype run_exn = Run_RuntimeError pystr | Run_Other pystr

fun run_exn_str :: "run_exn \<Rightarrow> pystr" where
  "run_exn_str (Run_RuntimeError m) = m"
| "run_exn_str (Run_Other m) = m"

definition run :: "platform \<Rightarrow> pystr list \<Rightarrow> pystr \<Rightarrow> world \<Rightarrow> (run_exn + unit) \<times> world" where
  "run P cmd dir w =
     (case run_process P cmd dir (files w) (cwd w) of
        (outcome, fs') \<Rightarrow>
          (let w' = w\<lparr>files := fs', spawned := spawned w @ [(cmd, dir)]\<rparr> in
           case outcome of
             Inl m \<Rightarrow> (Inl (Run_Other m), w')
           | Inr pr \<Rightarrow>
               (if returncode pr \<noteq> 0
                then (Inl (Run_RuntimeError
                       (lit ''Command failed:'' @ [newline]
                        @ str_join (lit '' '') cmd @ [newline, newline]
                        @ lit ''---- Build output ----'' @ [newline]
                        @ stdout pr)), w')
                else (Inr (), w'))))"

text \<open>The argument list both modules pass to \<^verbatim>\<open>_run\<close>.\<close>

definition latexmk_cmd :: "pystr list" where
  "latexmk_cmd =
     [lit ''latexmk'', lit ''-lualatex'', lit ''-interaction=nonstopmode'',
      lit ''-halt-on-error'', lit ''main.tex'']"

text \<open>
  \<open>query\<close> turns a question about the world into a statement. \<^verbatim>\<open>print(s)\<close>,
  \<^verbatim>\<open>env.get_template(name)\<close> and \<^verbatim>\<open>template.render(**data)\<close>; the keyword
  arguments are the entries of the dictionary that \<open>data\<close> refers to.
\<close>

definition query :: "(world \<Rightarrow> exn + 'a) \<Rightarrow> 'a action" where
  "query f w = (f w, w)"

definition print :: "pystr \<Rightarrow> unit action" where
  "print s w = (Inr (), w\<lparr>console := console w @ [s]\<rparr>)"

definition get_template :: "platform \<Rightarrow> jinja_env \<Rightarrow> pystr \<Rightarrow> template action" where
  "get_template P env tname w =
     (case load_template P (files w) (cwd w) env tname of
        Inl m \<Rightarrow> (Inl (Foreign m), w)
      | Inr t \<Rightarrow> (Inr t, w))"

definition render :: "template \<Rightarrow> nat \<Rightarrow> pystr action" where
  "render t data w =
     (case t (heap w data) of
        Inl m \<Rightarrow> (Inl (Foreign m), w)
      | Inr tex \<Rightarrow> (Inr tex, w))"

text \<open>
  The \<^verbatim>\<open>try\<close> statement of both modules around \<^verbatim>\<open>_run([...], cwd=workdir)\<close>:
  every exception \<open>ex\<close> is caught and a \<^verbatim>\<open>RuntimeError\<close> is raised whose message
  is the text of \<open>ex\<close>, two newlines, \<^verbatim>\<open>Temp build folder: \<close> and the working
  directory.
\<close>

definition run_latexmk :: "platform \<Rightarrow> pystr \<Rightarrow> unit action" where
  "run_latexmk P dir w =
     (case run P latexmk_cmd dir w of
        (Inl ex, w') \<Rightarrow>
          (Inl (RuntimeError
             (run_exn_str ex @ [newline, newline] @ lit ''Temp build folder: '' @ dir)), w')
      | (Inr u, w') \<Rightarrow> (Inr u, w'))"

text \<open>
  The \<^verbatim>\<open>Environment(...)\<close> each module builds, with the filter it registers.
  \<^verbatim>\<open>select_autoescape(enabled_extensions=())\<close> switches escaping off for every
  template that is loaded by name.
\<close>

definition cv_environment :: "pystr \<Rightarrow> jinja_env" where
  "cv_environment template_path =
     \<lparr>loader = template_path, autoescape = False,
      trim_blocks = True, lstrip_blocks = True,
      block_start_string = lit ''{%'', block_end_string = lit ''%}'',
      comment_start_string = lit ''{#'', comment_end_string = lit ''#}'',
      filters = [(lit ''latex'', latex_escape)]\<rparr>"

definition chief_environment :: "pystr \<Rightarrow> jinja_env" where
  "chief_environment template_dir =
     \<lparr>loader = template_dir, autoescape = False,
      trim_blocks = True, lstrip_blocks = True,
      block_start_string = lit ''((*'', block_end_string = lit ''*))'',
      comment_start_string = lit ''((#'', comment_end_string = lit ''#))'',
      filters = [(lit ''latex'', latex_escape)]\<rparr>"

text \<open>\<^verbatim>\<open>render_and_compile(data, template_path)\<close> of render_cv.py.\<close>

definition render_and_compile :: "platform \<Rightarrow> nat \<Rightarrow> pystr \<Rightarrow> RenderResult action" where
  "render_and_compile P data template_path =
     (let env = cv_environment template_path in
      then_do (print (lit ''Registered Jinja filter: latex'')) (\<lambda>u.
      then_do (get_template P env (lit ''main.tex.j2'')) (\<lambda>template.
      then_do (render template data) (\<lambda>tex.
      then_do (mkdtemp (lit ''cv_build_'')) (\<lambda>wdir.
      let wd = Path wdir in
      then_do (write_text (joinpath wd (Path (lit ''main.tex''))) tex) (\<lambda>u.
      then_do (run_latexmk P wdir) (\<lambda>u.
      let pdf_path = joinpath wd (Path (lit ''main.pdf'')) in
      then_do (query (\<lambda>w. exists w pdf_path)) (\<lambda>found.
      if \<not> found
      then raise (RuntimeError
             (lit ''Build succeeded but main.pdf was not created (unexpected).''))
      else then_do (read_bytes pdf_path) (\<lambda>bs.
             ret \<lparr>pdf_bytes = bs, tex_str = tex, workdir = wdir\<rparr>)))))))))"

text \<open>
  \<^verbatim>\<open>_copy_asset_to_workdir(asset_path, workdir)\<close>:
  \<^verbatim>\<open>dest = workdir / asset_path.name; shutil.copyfile(asset_path, dest); return dest.name\<close>.
\<close>

definition copy_asset_to_workdir :: "ppath \<Rightarrow> ppath \<Rightarrow> pystr action" where
  "copy_asset_to_workdir asset_path wd =
     (let dest = joinpath wd (Path (name asset_path)) in
      then_do (copyfile asset_path dest) (\<lambda>d. ret (name dest)))"

text \<open>
  \<^verbatim>\<open>_resolve_asset_path(maybe_path, template_dir, project_root, default_name)\<close>,
  with \<^verbatim>\<open>maybe_path: Optional[str]\<close>. \<^verbatim>\<open>if maybe_path:\<close> is false for
  \<^verbatim>\<open>None\<close> and for the empty string. The function reads the world and does not
  change it; \<open>and_then\<close> passes on the exception of a call of \<^verbatim>\<open>resolve()\<close> or
  \<^verbatim>\<open>exists()\<close>, none of which is caught. The result \<open>Inr None\<close> is the
  \<^verbatim>\<open>return None\<close> of the last line.
\<close>

definition and_then :: "exn + 'a \<Rightarrow> ('a \<Rightarrow> exn + 'b) \<Rightarrow> exn + 'b" where
  "and_then r f = (case r of Inl e \<Rightarrow> Inl e | Inr x \<Rightarrow> f x)"

definition resolve_asset_path ::
  "world \<Rightarrow> pystr option \<Rightarrow> ppath \<Rightarrow> ppath \<Rightarrow> pystr \<Rightarrow> exn + ppath option" where
  "resolve_asset_path w maybe_path template_dir project_root default_name =
     (let fallback =
        and_then (resolve w (joinpath template_dir (Path default_name))) (\<lambda>p3.
        and_then (exists w p3) (\<lambda>found3.
        if found3 then Inr (Some p3)
        else and_then (resolve w (joinpath project_root (Path default_name))) (\<lambda>p4.
             and_then (exists w p4) (\<lambda>found4.
             if found4 then Inr (Some p4) else Inr None))))
      in case maybe_path of
           None \<Rightarrow> fallback
         | Some s \<Rightarrow>
             (if s = [] then fallback
              else (let p = Path s in
                and_then (if anchored p then exists w p else Inr False) (\<lambda>found.
                if found then Inr (Some p)
                else and_then (resolve w (joinpath project_root p)) (\<lambda>p1.
                     and_then (exists w p1) (\<lambda>found1.
                     if found1 then Inr (Some p1)
                     else and_then (resolve w (joinpath template_dir p)) (\<lambda>p2.
                          and_then (exists w p2) (\<lambda>found2.
                          if found2 then Inr (Some p2) else fallback))))))))"

text \<open>
  The statements of \<^verbatim>\<open>render_and_compile_chief\<close> around the assets.
  \<open>dict_lookup\<close> is \<^verbatim>\<open>data.get(k)\<close>. \<open>find_asset\<close> is the call of
  \<^verbatim>\<open>_resolve_asset_path\<close> on that value: a value that is not a string counts as absent
  when it is false, and makes \<^verbatim>\<open>Path(maybe_path)\<close> raise \<^verbatim>\<open>TypeError\<close> when it is
  true. \<open>dict_copy\<close> is \<^verbatim>\<open>data = dict(data)\<close>, which allocates a new dictionary with
  the same entries; \<open>dict_set\<close> is \<^verbatim>\<open>data[k] = v\<close>. \<open>use_asset\<close> is
  \<^verbatim>\<open>if src: data[k] = _copy_asset_to_workdir(src, workdir)\<close>.
\<close>

definition dict_lookup :: "nat \<Rightarrow> pystr \<Rightarrow> pyval action" where
  "dict_lookup data k w = (Inr (dict_get (heap w data) k PyNone), w)"

fun as_optional_str :: "pyval \<Rightarrow> exn + pystr option" where
  "as_optional_str PyNone = Inr None"
| "as_optional_str (PyStr s) = Inr (Some s)"
| "as_optional_str (PyObj truthy s) = (if truthy then Inl TypeError else Inr None)"

definition find_asset ::
  "pyval \<Rightarrow> ppath \<Rightarrow> ppath \<Rightarrow> pystr \<Rightarrow> ppath option action" where
  "find_asset v template_dir project_root default_name w =
     (case as_optional_str v of
        Inl e \<Rightarrow> (Inl e, w)
      | Inr maybe_path \<Rightarrow>
          (resolve_asset_path w maybe_path template_dir project_root default_name, w))"

definition dict_copy :: "nat \<Rightarrow> nat action" where
  "dict_copy data w =
     (Inr (next_addr w),
      w\<lparr>heap := (heap w)(next_addr w := heap w data), next_addr := Suc (next_addr w)\<rparr>)"

definition dict_set :: "nat \<Rightarrow> pystr \<Rightarrow> pyval \<Rightarrow> unit action" where
  "dict_set data k v w = (Inr (), w\<lparr>heap := (heap w)(data := (heap w data)(k \<mapsto> v))\<rparr>)"

definition use_asset :: "ppath option \<Rightarrow> ppath \<Rightarrow> nat \<Rightarrow> pystr \<Rightarrow> unit action" where
  "use_asset src wd data k =
     (case src of
        None \<Rightarrow> ret ()
      | Some asset \<Rightarrow>
          then_do (copy_asset_to_workdir asset wd) (\<lambda>base. dict_set data k (PyStr base)))"

text \<open>
  \<^verbatim>\<open>render_and_compile_chief(data, template_path, template_name)\<close> of
  chief_render_cv.py.
\<close>

definition render_and_compile_chief ::
  "platform \<Rightarrow> nat \<Rightarrow> pystr \<Rightarrow> pystr \<Rightarrow> RenderResult action" where
  "render_and_compile_chief P data template_path template_name =
     then_do (query (\<lambda>w. resolve w (Path template_path))) (\<lambda>template_dir.
     then_do (query (\<lambda>w. resolve w (path_cwd w))) (\<lambda>project_root.
     let env = chief_environment (path_str template_dir) in
     then_do (get_template P env template_name) (\<lambda>template.
     then_do (mkdtemp (lit ''cv_build_'')) (\<lambda>made.
     let wd = Path made in
     then_do (dict_lookup data (lit ''photo_banner_path'')) (\<lambda>banner_arg.
     then_do (find_asset banner_arg template_dir project_root (lit ''photo_banner.png''))
       (\<lambda>banner_src.
     then_do (dict_lookup data (lit ''highlight_path'')) (\<lambda>highlight_arg.
     then_do (find_asset highlight_arg template_dir project_root (lit ''highlight.png''))
       (\<lambda>highlight_src.
     then_do (dict_copy data) (\<lambda>data'.
     then_do (use_asset banner_src wd data' (lit ''photo_banner_path'')) (\<lambda>u.
     then_do (use_asset highlight_src wd data' (lit ''highlight_path'')) (\<lambda>u.
     then_do (render template data') (\<lambda>tex.
     then_do (write_text (joinpath wd (Path (lit ''main.tex''))) tex) (\<lambda>u.
     then_do (run_latexmk P (path_str wd)) (\<lambda>u.
     let pdf_path = joinpath wd (Path (lit ''main.pdf'')) in
     then_do (query (\<lambda>w. exists w pdf_path)) (\<lambda>found.
     if \<not> found
     then raise (RuntimeError
            (lit ''Build succeeded but main.pdf was not created (unexpected).''))
     else then_do (read_bytes pdf_path) (\<lambda>bs.
            ret \<lparr>pdf_bytes = bs, tex_str = tex, workdir = path_str wd\<rparr>)
     )))))))))))))))"


section \<open>Notions of the specification\<close>





text \<open>
  A file name: a path component that is not empty, is neither one nor two dots and
  contains no slash. \<open>proper_part\<close> is what pathlib guarantees of every component
  it has parsed. \<open>encodable s\<close>: a file operation accepts the text \<open>s\<close> in a path (no
  null character, no surrogate that cannot be encoded). \<open>plain_name c\<close>: the name is
  encodable and not longer than the file system allows.
\<close>

definition is_filename :: "pystr \<Rightarrow> bool" where
  "is_filename n = (n \<noteq> [] \<and> n \<noteq> lit ''.'' \<and> n \<noteq> dotdot \<and> slash \<notin> set n)"


definition encodable :: "pystr \<Rightarrow> bool" where
  "encodable s = (case path_converter s of Inl e \<Rightarrow> False | Inr bs \<Rightarrow> True)"


text \<open>
  What a statement leaves of the heap. \<open>pure_heap m\<close>: \<open>m\<close> changes no dictionary
  and allocates none. \<open>kept L w w'\<close>: the dictionaries at the addresses below \<open>L\<close> are
  the same in \<open>w'\<close> as in \<open>w\<close>. \<open>frames L m\<close>: \<open>m\<close> keeps them whenever they are all
  allocated.
\<close>

definition pure_heap :: "'a action \<Rightarrow> bool" where
  "pure_heap m = (\<forall>w. heap (snd (m w)) = heap w \<and> next_addr (snd (m w)) = next_addr w)"

definition kept :: "nat \<Rightarrow> world \<Rightarrow> world \<Rightarrow> bool" where
  "kept L w w' = (L \<le> next_addr w' \<and> (\<forall>a<L. heap w' a = heap w a))"

definition frames :: "nat \<Rightarrow> 'a action \<Rightarrow> bool" where
  "frames L m = (\<forall>w. L \<le> next_addr w \<longrightarrow> kept L w (snd (m w)))"

section \<open>Concrete worlds\<close>

text \<open>
  A small project: the directories \<^verbatim>\<open>/tmp\<close>, \<^verbatim>\<open>/proj\<close>, \<^verbatim>\<open>/proj/templates\<close> and
  \<^verbatim>\<open>/proj/assets\<close>, a banner image in the template directory, and one data record at
  address 0. The template greets the escaped first name. \<open>latexmk_ok\<close> writes
  \<^verbatim>\<open>main.pdf\<close> and exits with status 0, \<open>latexmk_fails\<close> exits with status 1, and
  \<open>latexmk_no_pdf\<close> exits with status 0 without writing anything.
\<close>

definition demo_files :: fsmap where
  "demo_files =
     [([lit ''tmp''], Dir),
      ([lit ''proj''], Dir),
      ([lit ''proj'', lit ''templates''], Dir),
      ([lit ''proj'', lit ''templates'', lit ''photo_banner.png''], File [137, 80, 78, 71]),
      ([lit ''proj'', lit ''assets''], Dir)]"

definition demo_world :: world where
  "demo_world =
     \<lparr>files = demo_files, cwd = [lit ''proj''], tempdir = lit ''/tmp'',
      tmp_names = [lit ''x1'', lit ''x2''], locked = [],
      heap = (\<lambda>a. if a = 0 then [lit ''first_name'' \<mapsto> PyStr (lit ''R&D'')] else Map.empty),
      next_addr = 1, console = [], spawned = []\<rparr>"

definition demo_template :: template where
  "demo_template d = Inr (lit ''Hello '' @ latex_escape (dict_get d (lit ''first_name'') PyNone))"

definition latexmk_ok :: platform where
  "latexmk_ok =
     \<lparr>run_process = (\<lambda>cmd dir fs c.
        (Inr \<lparr>returncode = 0, stdout = lit ''Latexmk: All targets are up-to-date''\<rparr>,
         AList.update (parts (Path dir) @ [lit ''main.pdf'']) (File [37, 80, 68, 70]) fs)),
      load_template = (\<lambda>fs c env n. Inr demo_template)\<rparr>"

definition latexmk_fails :: platform where
  "latexmk_fails =
     \<lparr>run_process = (\<lambda>cmd dir fs c.
        (Inr \<lparr>returncode = 1, stdout = lit ''! Undefined control sequence.''\<rparr>, fs)),
      load_template = (\<lambda>fs c env n. Inr demo_template)\<rparr>"

definition latexmk_no_pdf :: platform where
  "latexmk_no_pdf =
     \<lparr>run_process = (\<lambda>cmd dir fs c.
        (Inr \<lparr>returncode = 0, stdout = lit ''Latexmk: Nothing to do''\<rparr>, fs)),
      load_template = (\<lambda>fs c env n. Inr demo_template)\<rparr>"




section \<open>Lemmas about the escaper\<close>

lemma subst_pass_Done: "foldl (\<lambda>p cr. subst_pass cr p) (Done r) tbl = Done r"
  by (induction tbl) (simp_all add: subst_pass_def)

lemma subst_pass_Raw:
  "foldl (\<lambda>p cr. subst_pass cr p) (Raw c) tbl =
     (case map_of tbl c of None \<Rightarrow> Raw c | Some r \<Rightarrow> Done r)"
proof (induction tbl)
  case Nil
  then show ?case by simp
next
  case (Cons cr tbl)
  show ?case
  proof (cases "fst cr = c")
    case True
    then have "subst_pass cr (Raw c) = Done (snd cr)"
      by (simp add: subst_pass_def)
    with True show ?thesis by (simp add: subst_pass_Done)
  next
    case False
    then have "subst_pass cr (Raw c) = Raw c"
      by (auto simp add: subst_pass_def)
    with False show ?thesis using Cons.IH by simp
  qed
qed

lemma passes_pointwise:
  "foldl (\<lambda>ps cr. map (subst_pass cr) ps) ps tbl =
     map (\<lambda>p. foldl (\<lambda>p cr. subst_pass cr p) p tbl) ps"
  by (induction tbl arbitrary: ps) (simp_all add: comp_def)

lemma escape_in_order_eq:
  "escape_in_order s = concat (map (\<lambda>ch. dict_get replacements ch [ch]) s)"
proof -
  have "flatten (foldl (\<lambda>p cr. subst_pass cr p) (Raw ch) substitutions) =
          dict_get replacements ch [ch]" for ch
    by (simp add: subst_pass_Raw dict_get_def replacements_def split: option.split)
  then show ?thesis
    by (simp add: escape_in_order_def passes_pointwise comp_def)
qed

lemma replacements_table:
  "dict_get replacements ch [ch] =
     (if ch = of_char backslash then lit (backslash # ''textbackslash{}'')
      else if ch = of_char CHR ''&'' then lit [backslash, CHR ''&'']
      else if ch = of_char CHR ''%'' then lit [backslash, CHR ''%'']
      else if ch = of_char CHR ''$'' then lit [backslash, CHR ''$'']
      else if ch = of_char CHR ''#'' then lit [backslash, CHR ''#'']
      else if ch = of_char CHR ''_'' then lit [backslash, CHR ''_'']
      else if ch = of_char CHR ''{'' then lit [backslash, CHR ''{'']
      else if ch = of_char CHR ''}'' then lit [backslash, CHR ''}'']
      else if ch = of_char CHR ''~'' then lit (backslash # ''textasciitilde{}'')
      else if ch = of_char CHR ''^'' then lit (backslash # ''textasciicircum{}'')
      else [ch])"
  by (simp add: dict_get_def replacements_def substitutions_def)

lemma no_unescaped_sequence:
  "(c, q) \<in> set substitutions \<Longrightarrow> no_unescaped (q @ rest) = no_unescaped rest"
  by (auto simp add: substitutions_def lit_def backslash_def special_chars_def
      escape_sequences_def)

lemma no_unescaped_replacement:
  "no_unescaped (dict_get replacements ch [ch] @ rest) = no_unescaped rest"
proof (cases "replacements ch")
  case None
  then have "ch \<notin> set special_chars"
    by (simp add: replacements_def special_chars_def map_of_eq_None_iff)
  with None show ?thesis by (simp add: dict_get_def)
next
  case (Some q)
  then have "(ch, q) \<in> set substitutions"
    by (simp add: replacements_def map_of_SomeD)
  then have "no_unescaped (q @ rest) = no_unescaped rest"
    by (rule no_unescaped_sequence)
  with Some show ?thesis by (simp add: dict_get_def)
qed

lemma no_unescaped_escaped:
  "no_unescaped (concat (map (\<lambda>ch. dict_get replacements ch [ch]) s))"
  by (induction s) (simp_all add: no_unescaped_replacement)

text \<open>
  The reading of "no unescaped special character" is not vacuous: a text that starts
  with a special character other than the backslash is rejected, and so is a backslash
  that starts none of the ten sequences.
\<close>

lemma no_unescaped_rejects_raw:
  "c \<in> set special_chars \<Longrightarrow> c \<noteq> of_char backslash \<Longrightarrow> \<not> no_unescaped (c # cs)"
  by (auto simp add: substitutions_def lit_def backslash_def special_chars_def
      escape_sequences_def)

lemma no_unescaped_rejects_lone_backslash:
  "\<not> no_unescaped (lit (backslash # ''x''))"
  by (simp add: substitutions_def lit_def backslash_def special_chars_def
      escape_sequences_def)

section \<open>Lemmas about paths and files\<close>

lemma those_map_None:
  "(those (map f xs) = None) = (\<exists>x \<in> set xs. f x = None)"
  by (induction xs) (auto split: option.splits)

lemma utf8_char_zero: "utf8_char cp = Some b \<Longrightarrow> (0 \<in> set b) = (cp = 0)"
  by (auto simp add: utf8_char_def split: if_splits)

lemma fs_char_zero: "fs_char cp = Some b \<Longrightarrow> (0 \<in> set b) = (cp = 0)"
  by (auto simp add: fs_char_def utf8_char_zero split: if_splits)

lemma fsencode_None: "(fsencode s = None) = (\<exists>cp \<in> set s. fs_char cp = None)"
  by (simp add: fsencode_def those_map_None)

lemma fsencode_zero: "fsencode s = Some bs \<Longrightarrow> (0 \<in> set bs) = (0 \<in> set s)"
proof (induction s arbitrary: bs)
  case Nil
  then show ?case by (simp add: fsencode_def)
next
  case (Cons cp s)
  then obtain b bs' where b: "fs_char cp = Some b" and bs': "fsencode s = Some bs'"
    and bs: "bs = b @ bs'"
    by (auto simp add: fsencode_def split: option.splits)
  from Cons.IH [OF bs'] fs_char_zero [OF b] bs show ?case by auto
qed

lemma encodable_iff:
  "encodable s = (0 \<notin> set s \<and> (\<forall>cp \<in> set s. fs_char cp \<noteq> None))"
proof (cases "fsencode s")
  case None
  then have "\<exists>cp \<in> set s. fs_char cp = None"
    by (simp add: fsencode_None)
  moreover from None have "\<not> encodable s"
    by (simp add: encodable_def path_converter_def)
  ultimately show ?thesis by auto
next
  case (Some bs)
  then have "\<forall>cp \<in> set s. fs_char cp \<noteq> None"
    using fsencode_None [of s] by auto
  with Some fsencode_zero [OF Some] show ?thesis
    by (auto simp add: encodable_def path_converter_def)
qed


lemma encodable_append: "encodable (a @ b) = (encodable a \<and> encodable b)"
  by (auto simp add: encodable_iff)

lemma set_str_join:
  "set (str_join sep cs) = \<Union> (set ` set cs) \<union> (if 2 \<le> length cs then set sep else {})"
  by (induction sep cs rule: str_join.induct) auto

lemma encodable_slash: "encodable [slash]"
  by (simp add: encodable_iff slash_def fs_char_def utf8_char_def)

lemma encodable_path_str:
  "encodable (path_str p) = (\<forall>c \<in> set (parts p). encodable c)"
proof -
  have dot: "encodable (lit ''.'')"
    by (simp add: encodable_iff lit_def fs_char_def utf8_char_def)
  have sl: "0 \<noteq> slash \<and> fs_char slash \<noteq> None"
    using encodable_slash by (simp add: encodable_iff)
  have join: "encodable (str_join [slash] cs) = (\<forall>c \<in> set cs. encodable c)" for cs
    using sl by (auto simp add: encodable_iff set_str_join)
  have "encodable ([slash] @ str_join [slash] (parts p)) = (\<forall>c \<in> set (parts p). encodable c)"
    by (simp only: encodable_append join) (simp add: encodable_slash)
  with dot join [of "parts p"] show ?thesis
    by (simp add: path_str_def)
qed

lemma split_on_none: "d \<notin> set xs \<Longrightarrow> split_on d xs = [xs]"
  by (induction xs) auto

lemma Path_filename:
  "is_filename n \<Longrightarrow> Path n = \<lparr>anchored = False, parts = [n]\<rparr>"
  by (cases n) (auto simp add: is_filename_def Path_def split_on_none)

lemma node_at_update:
  "node_at (AList.update l n fs) k =
     (if k = [] then Some Dir else if k = l then Some n else node_at fs k)"
  by (simp add: node_at_def update_conv')

lemma walk_append:
  "walk fs cur (cs @ [c]) =
     (case walk fs cur cs of
        Inl e \<Rightarrow> Inl e
      | Inr l \<Rightarrow> walk fs l [c])"
  by (induction cs arbitrary: cur) (auto split: option.split node.split)

lemma walk_step:
  "walk fs cur (c # cs) = Inr l' \<Longrightarrow>
   node_at fs cur = Some Dir \<and> \<not> (c \<noteq> dotdot \<and> name_too_long c)
   \<and> walk fs (if c = dotdot then butlast cur else cur @ [c]) cs = Inr l'"
  by (auto split: option.splits node.splits if_splits)


lemma walk_dirs_kept:
  assumes "\<And>l. node_at fs l = Some Dir \<Longrightarrow> node_at fs' l = Some Dir"
    and "walk fs cur cs = Inr l'"
  shows "walk fs' cur cs = Inr l'"
  using assms(2)
proof (induction cs arbitrary: cur)
  case Nil
  then show ?case by simp
next
  case (Cons c cs)
  let ?next = "if c = dotdot then butlast cur else cur @ [c]"
  from walk_step [OF Cons.prems]
  have dir: "node_at fs cur = Some Dir" and ok: "\<not> (c \<noteq> dotdot \<and> name_too_long c)"
    and rest: "walk fs ?next cs = Inr l'"
    by simp_all
  from dir have dir': "node_at fs' cur = Some Dir" by (rule assms(1))
  from rest have "walk fs' ?next cs = Inr l'" by (rule Cons.IH)
  with dir' ok show ?case
    by (simp only: walk.simps option.case node.case if_False)
qed

lemma node_at_update_dir:
  "node_at fs l \<noteq> Some Dir \<Longrightarrow> node_at fs k = Some Dir \<Longrightarrow>
   node_at (AList.update l n fs) k = Some Dir"
  by (auto simp add: node_at_update)

lemma locate_Inr:
  "(locate w p = Inr l) =
     (encodable (path_str p) \<and> walk (files w) [] (abs_parts w p) = Inr l)"
  by (auto simp add: locate_def encodable_def split: sum.splits)

lemma locate_update:
  assumes "locate w p = Inr l'" and "node_at (files w) l \<noteq> Some Dir"
  shows "locate (w\<lparr>files := AList.update l n (files w)\<rparr>) p = Inr l'"
proof -
  from assms(1) have enc: "encodable (path_str p)"
    and wk: "walk (files w) [] (abs_parts w p) = Inr l'"
    by (simp_all add: locate_Inr)
  have "walk (AList.update l n (files w)) [] (abs_parts w p) = Inr l'"
    using wk by (rule walk_dirs_kept [rotated]) (rule node_at_update_dir [OF assms(2)])
  moreover have "abs_parts (w\<lparr>files := AList.update l n (files w)\<rparr>) p = abs_parts w p"
    by (simp add: abs_parts_def)
  ultimately show ?thesis using enc by (simp add: locate_Inr)
qed



lemma stat_Inr:
  "(stat w p = Inr n) = (\<exists>l. locate w p = Inr l \<and> node_at (files w) l = Some n)"
  by (auto simp add: stat_def split: sum.splits option.splits)


lemma stat_written:
  assumes "locate w p = Inr l" and "node_at (files w) l \<noteq> Some Dir"
  shows "stat (w\<lparr>files := AList.update l n (files w)\<rparr>) p = Inr n"
proof -
  have "l \<noteq> []" using assms(2) by (auto simp add: node_at_def)
  moreover have "locate (w\<lparr>files := AList.update l n (files w)\<rparr>) p = Inr l"
    using assms by (rule locate_update)
  ultimately show ?thesis by (simp add: stat_Inr node_at_update)
qed

lemma locate_same_files:
  assumes "files w' = files w" and "cwd w' = cwd w"
  shows "locate w' p = locate w p"
  using assms by (cases "path_converter (path_str p)") (simp_all add: locate_def abs_parts_def)

lemma stat_same_files:
  assumes "files w' = files w" and "cwd w' = cwd w"
  shows "stat w' p = stat w p"
proof -
  have "locate w' p = locate w p"
    using assms by (rule locate_same_files)
  then show ?thesis
    using assms(1) by (simp add: stat_def split: sum.split)
qed










lemma os_mkdir_created:
  "os_mkdir p w = (Inr u, w') \<Longrightarrow>
   \<exists>l. locate w p = Inr l \<and> node_at (files w) l = None
     \<and> w' = w\<lparr>files := AList.update l Dir (files w)\<rparr>"
  by (auto simp add: os_mkdir_def split: sum.splits option.splits)

lemma mkdtemp_loop_created:
  "mkdtemp_loop pre ns w = (Inr d, w2) \<Longrightarrow>
   \<exists>l rest. locate w (Path d) = Inr l \<and> node_at (files w) l = None
     \<and> w2 = w\<lparr>files := AList.update l Dir (files w), tmp_names := rest\<rparr>"
proof (induction ns)
  case Nil
  then show ?case by simp
next
  case (Cons n ns)
  let ?file = "os_path_join (tempdir w) (pre @ n)"
  obtain r w' where mk: "os_mkdir (Path ?file) w = (r, w')"
    by (cases "os_mkdir (Path ?file) w")
  show ?case
  proof (cases r)
    case (Inl e)
    with mk Cons.prems have "mkdtemp_loop pre ns w = (Inr d, w2)"
      by (simp add: Let_def split: if_splits)
    then show ?thesis by (rule Cons.IH)
  next
    case (Inr u)
    with mk Cons.prems have d: "d = ?file" and w2: "w2 = w'\<lparr>tmp_names := ns\<rparr>"
      by (simp_all add: Let_def)
    from mk Inr obtain l where loc: "locate w (Path ?file) = Inr l"
      and free: "node_at (files w) l = None"
      and w': "w' = w\<lparr>files := AList.update l Dir (files w)\<rparr>"
      by (blast dest: os_mkdir_created)
    have "w2 = w\<lparr>files := AList.update l Dir (files w), tmp_names := ns\<rparr>"
      by (simp only: w2 w')
    with loc free d show ?thesis by blast
  qed
qed

lemma mkdtemp_new:
  assumes "mkdtemp pre w = (Inr d, w2)"
  shows "exists w (Path d) = Inr False" and "stat w2 (Path d) = Inr Dir"
    and "heap w2 = heap w" and "next_addr w2 = next_addr w" and "spawned w2 = spawned w"
    and "cwd w2 = cwd w"
proof -
  from assms obtain l rest where loc: "locate w (Path d) = Inr l"
    and free: "node_at (files w) l = None"
    and w2: "w2 = w\<lparr>files := AList.update l Dir (files w), tmp_names := rest\<rparr>"
    unfolding mkdtemp_def by (blast dest: mkdtemp_loop_created)
  show "exists w (Path d) = Inr False"
    using loc free by (simp add: exists_def stat_def ignore_error_def)
  have "node_at (files w) l \<noteq> Some Dir" using free by simp
  with loc have "stat (w\<lparr>files := AList.update l Dir (files w)\<rparr>) (Path d) = Inr Dir"
    by (rule stat_written)
  moreover have "stat w2 (Path d) = stat (w\<lparr>files := AList.update l Dir (files w)\<rparr>) (Path d)"
    by (rule stat_same_files) (simp_all add: w2)
  ultimately show "stat w2 (Path d) = Inr Dir" by simp
  show "heap w2 = heap w" "next_addr w2 = next_addr w" "spawned w2 = spawned w"
    "cwd w2 = cwd w"
    by (simp_all add: w2)
qed

lemma write_text_written:
  assumes "write_text p text w = (Inr (), w3)"
  shows "\<exists>l bs. utf8_encode text = Some bs \<and> locate w p = Inr l
          \<and> node_at (files w) l \<noteq> Some Dir
          \<and> w3 = w\<lparr>files := AList.update l (File bs) (files w)\<rparr>
          \<and> stat w3 p = Inr (File bs)"
proof -
  from assms obtain l bs where enc: "utf8_encode text = Some bs"
    and opn: "open_w w p = Inr l"
    and w3: "w3 = w\<lparr>files := AList.update l (File bs) (files w)\<rparr>"
    by (auto simp add: write_text_def split: sum.splits option.splits)
  from opn have loc: "locate w p = Inr l" and nd: "node_at (files w) l \<noteq> Some Dir"
    by (auto simp add: open_w_def split: sum.splits option.splits node.splits)
  from loc nd have "stat (w\<lparr>files := AList.update l (File bs) (files w)\<rparr>) p = Inr (File bs)"
    by (rule stat_written)
  with enc loc nd w3 show ?thesis by blast
qed



lemma stat_mono:
  assumes sub: "\<And>l n. map_of (files w) l = Some n \<Longrightarrow> map_of (files w') l = Some n"
    and cwd: "cwd w' = cwd w"
    and st: "stat w p = Inr x"
  shows "stat w' p = Inr x"
proof -
  have node: "node_at (files w') l = Some n" if "node_at (files w) l = Some n" for l n
    using that sub by (auto simp add: node_at_def split: if_splits)
  from st obtain l where loc: "locate w p = Inr l" and at: "node_at (files w) l = Some x"
    by (auto simp add: stat_Inr)
  from loc have enc: "encodable (path_str p)"
    and wk: "walk (files w) [] (abs_parts w p) = Inr l"
    by (simp_all add: locate_Inr)
  have "abs_parts w' p = abs_parts w p" using cwd by (simp add: abs_parts_def)
  moreover have "walk (files w') [] (abs_parts w p) = Inr l"
    using wk by (rule walk_dirs_kept [rotated]) (rule node)
  ultimately have "locate w' p = Inr l" using enc by (simp add: locate_Inr)
  with node [OF at] show ?thesis by (auto simp add: stat_Inr)
qed

lemma main_tex_filename: "is_filename (lit ''main.tex'')"
  by (simp add: is_filename_def lit_def slash_def dotdot_def)

lemma stat_parent:
  assumes "is_filename n" and "stat w (joinpath wd (Path n)) = Inr x"
  shows "stat w wd = Inr Dir"
proof -
  have pn: "parts (joinpath wd (Path n)) = parts wd @ [n]"
    using assms(1) by (simp add: Path_filename joinpath_def)
  have ap: "abs_parts w (joinpath wd (Path n)) = abs_parts w wd @ [n]"
    using assms(1) by (simp add: Path_filename joinpath_def abs_parts_def)
  from assms(2) obtain l' where loc: "locate w (joinpath wd (Path n)) = Inr l'"
    by (auto simp add: stat_Inr)
  then have enc: "encodable (path_str (joinpath wd (Path n)))"
    and wk: "walk (files w) [] (abs_parts w wd @ [n]) = Inr l'"
    by (simp_all add: locate_Inr ap)
  from enc have encw: "encodable (path_str wd)"
    by (simp add: encodable_path_str pn)
  from wk obtain lw where lw: "walk (files w) [] (abs_parts w wd) = Inr lw"
    and step: "walk (files w) lw [n] = Inr l'"
    by (auto simp add: walk_append split: sum.splits)
  from walk_step [OF step] have "node_at (files w) lw = Some Dir" by simp
  with lw encw show ?thesis by (auto simp add: stat_Inr locate_Inr)
qed












section \<open>Lemmas about the statements of the render functions\<close>

lemma then_do_Inr: "m w = (Inr x, w') \<Longrightarrow> then_do m f w = f x w'"
  by (simp add: then_do_def)

lemma then_do_Inl: "m w = (Inl e, w') \<Longrightarrow> then_do m f w = (Inl e, w')"
  by (simp add: then_do_def)

lemma then_do_success:
  "then_do m f w = (Inr y, w'') \<Longrightarrow> \<exists>x w'. m w = (Inr x, w') \<and> f x w' = (Inr y, w'')"
  by (auto simp add: then_do_def split: prod.splits sum.splits)

lemma print_eq: "print s w = (Inr (), w\<lparr>console := console w @ [s]\<rparr>)"
  by (simp add: print_def)

lemma run_latexmk_nonzero:
  assumes "run_process P latexmk_cmd dir (files w) (cwd w) = (Inr pr, fs')"
    and "returncode pr \<noteq> 0"
  shows "run_latexmk P dir w =
     (Inl (RuntimeError
        (lit ''Command failed:'' @ [newline]
         @ str_join (lit '' '') latexmk_cmd @ [newline, newline]
         @ lit ''---- Build output ----'' @ [newline]
         @ stdout pr
         @ [newline, newline] @ lit ''Temp build folder: '' @ dir)),
      w\<lparr>files := fs', spawned := spawned w @ [(latexmk_cmd, dir)]\<rparr>)"
  using assms by (simp add: run_latexmk_def run_def Let_def)

lemma run_latexmk_zero:
  assumes "run_process P latexmk_cmd dir (files w) (cwd w) = (Inr pr, fs')"
    and "returncode pr = 0"
  shows "run_latexmk P dir w =
     (Inr (), w\<lparr>files := fs', spawned := spawned w @ [(latexmk_cmd, dir)]\<rparr>)"
  using assms by (simp add: run_latexmk_def run_def Let_def)

lemma latexmk_cmd_line:
  "str_join (lit '' '') latexmk_cmd =
     lit ''latexmk -lualatex -interaction=nonstopmode -halt-on-error main.tex''"
  by (simp add: latexmk_cmd_def lit_def)







lemma query_eq: "f w = r \<Longrightarrow> query f w = (r, w)"
  by (simp add: query_def)







lemma get_template_eq:
  "load_template P (files w) (cwd w) env tname = Inr t \<Longrightarrow>
   get_template P env tname w = (Inr t, w)"
  by (simp add: get_template_def)

lemma render_eq: "t (heap w data) = Inr tex \<Longrightarrow> render t data w = (Inr tex, w)"
  by (simp add: render_def)

lemma use_asset_spawned:
  "spawned (snd (use_asset src wd x k w)) = spawned w"
  by (simp add: use_asset_def copy_asset_to_workdir_def copyfile_def then_do_def ret_def
      dict_set_def Let_def split: option.split sum.split node.split prod.split bool.split)

lemma pure_heap_then_do:
  "pure_heap m \<Longrightarrow> (\<And>x. pure_heap (f x)) \<Longrightarrow> pure_heap (then_do m f)"
proof -
  assume m: "pure_heap m" and f: "\<And>x. pure_heap (f x)"
  show "pure_heap (then_do m f)"
    unfolding pure_heap_def
  proof
    fix w
    obtain r w1 where mw: "m w = (r, w1)" by (cases "m w")
    from m mw have h1: "heap w1 = heap w" "next_addr w1 = next_addr w"
      by (auto simp add: pure_heap_def dest: spec [of _ w])
    show "heap (snd (then_do m f w)) = heap w
        \<and> next_addr (snd (then_do m f w)) = next_addr w"
    proof (cases r)
      case (Inl e)
      with mw h1 show ?thesis by (simp add: then_do_def)
    next
      case (Inr x)
      from f [of x] have "heap (snd (f x w1)) = heap w1"
        "next_addr (snd (f x w1)) = next_addr w1"
        by (simp_all add: pure_heap_def)
      with Inr mw h1 show ?thesis by (simp add: then_do_def)
    qed
  qed
qed

lemma pure_heap_if:
  "pure_heap a \<Longrightarrow> pure_heap b \<Longrightarrow> pure_heap (if c then a else b)"
  by simp

lemma pure_heap_query: "pure_heap (query f)"
  by (simp add: pure_heap_def query_def)

lemma pure_heap_ret: "pure_heap (ret x)"
  by (simp add: pure_heap_def ret_def)

lemma pure_heap_raise: "pure_heap (raise e)"
  by (simp add: pure_heap_def raise_def)

lemma pure_heap_print: "pure_heap (print s)"
  by (simp add: pure_heap_def print_def)

lemma pure_heap_get_template: "pure_heap (get_template P env tname)"
  by (simp add: pure_heap_def get_template_def split: sum.split)

lemma pure_heap_render: "pure_heap (render t data)"
  by (simp add: pure_heap_def render_def split: sum.split)

lemma mkdtemp_loop_heap:
  "heap (snd (mkdtemp_loop pre ns w)) = heap w
   \<and> next_addr (snd (mkdtemp_loop pre ns w)) = next_addr w"
proof (induction ns)
  case Nil
  then show ?case by simp
next
  case (Cons n ns)
  then show ?case
    by (simp add: Let_def os_mkdir_def split: sum.split option.split prod.split)
qed

lemma pure_heap_mkdtemp: "pure_heap (mkdtemp pre)"
  by (simp add: pure_heap_def mkdtemp_def mkdtemp_loop_heap)

lemma pure_heap_write_text: "pure_heap (write_text p text)"
  by (simp add: pure_heap_def write_text_def split: sum.split option.split)

lemma pure_heap_read_bytes: "pure_heap (read_bytes p)"
  by (simp add: pure_heap_def read_bytes_def split: sum.split node.split)

lemma pure_heap_run_latexmk: "pure_heap (run_latexmk P dir)"
  by (simp add: pure_heap_def run_latexmk_def run_def Let_def
      split: sum.split prod.split)

lemma pure_heap_copyfile: "pure_heap (copyfile src dst)"
  by (simp add: pure_heap_def copyfile_def split: sum.split node.split bool.split)

lemma pure_heap_copy_asset: "pure_heap (copy_asset_to_workdir asset wd)"
  unfolding copy_asset_to_workdir_def Let_def
  by (intro pure_heap_then_do pure_heap_copyfile pure_heap_ret)

lemma pure_heap_dict_lookup: "pure_heap (dict_lookup data k)"
  by (simp add: pure_heap_def dict_lookup_def)

lemma pure_heap_find_asset: "pure_heap (find_asset x td pr dn)"
  by (simp add: pure_heap_def find_asset_def split: sum.split)

lemma render_and_compile_pure_heap: "pure_heap (render_and_compile P data template_path)"
  unfolding render_and_compile_def Let_def
  by (intro pure_heap_then_do pure_heap_if pure_heap_print pure_heap_get_template
      pure_heap_render pure_heap_mkdtemp pure_heap_write_text pure_heap_run_latexmk
      pure_heap_read_bytes pure_heap_raise pure_heap_ret pure_heap_query)

lemma kept_trans: "kept L a b \<Longrightarrow> kept L b c \<Longrightarrow> kept L a c"
  by (simp add: kept_def)

lemma frames_pure: "pure_heap m \<Longrightarrow> frames L m"
  by (simp add: frames_def pure_heap_def kept_def)

lemma frames_then_do:
  assumes m: "frames L m" and f: "\<And>x. frames L (f x)"
  shows "frames L (then_do m f)"
  unfolding frames_def
proof (intro allI impI)
  fix w :: world
  assume L: "L \<le> next_addr w"
  obtain r w1 where mw: "m w = (r, w1)" by (cases "m w")
  from m L mw have k1: "kept L w w1" by (auto simp add: frames_def dest: spec [of _ w])
  show "kept L w (snd (then_do m f w))"
  proof (cases r)
    case (Inl e)
    with mw k1 show ?thesis by (simp add: then_do_def)
  next
    case (Inr x)
    from k1 have "L \<le> next_addr w1" by (simp add: kept_def)
    with f [of x] have "kept L w1 (snd (f x w1))" by (simp add: frames_def)
    with k1 have "kept L w (snd (f x w1))" by (rule kept_trans)
    with Inr mw show ?thesis by (simp add: then_do_def)
  qed
qed

lemma frames_if:
  "frames L a \<Longrightarrow> frames L b \<Longrightarrow> frames L (if c then a else b)"
  by simp

lemma frames_dict_set: "L \<le> x \<Longrightarrow> frames L (dict_set x k v)"
  by (simp add: frames_def kept_def dict_set_def)

lemma frames_use_asset: "L \<le> x \<Longrightarrow> frames L (use_asset src wd x k)"
  unfolding use_asset_def
  by (cases src)
     (simp_all add: frames_pure pure_heap_ret frames_then_do pure_heap_copy_asset
        frames_dict_set)

lemma frames_dict_copy:
  assumes "\<And>x. L \<le> x \<Longrightarrow> frames L (f x)"
  shows "frames L (then_do (dict_copy data) f)"
  unfolding frames_def
proof (intro allI impI)
  fix w :: world
  assume L: "L \<le> next_addr w"
  let ?w1 = "w\<lparr>heap := (heap w)(next_addr w := heap w data),
                next_addr := Suc (next_addr w)\<rparr>"
  have k1: "kept L w ?w1" using L by (simp add: kept_def)
  then have "L \<le> next_addr ?w1" by (simp add: kept_def)
  with assms [OF L] have "kept L ?w1 (snd (f (next_addr w) ?w1))"
    by (simp add: frames_def)
  with k1 have "kept L w (snd (f (next_addr w) ?w1))" by (rule kept_trans)
  then show "kept L w (snd (then_do (dict_copy data) f w))"
    by (simp add: then_do_def dict_copy_def)
qed

lemma render_and_compile_chief_frames:
  "L \<le> next_addr v \<Longrightarrow>
   kept L v (snd (render_and_compile_chief P data template_path template_name v))"
proof -
  assume L: "L \<le> next_addr v"
  have "frames L (render_and_compile_chief P data template_path template_name)"
    unfolding render_and_compile_chief_def Let_def
    apply (rule frames_then_do [OF frames_pure [OF pure_heap_query]])
    apply (rule frames_then_do [OF frames_pure [OF pure_heap_query]])
    apply (rule frames_then_do [OF frames_pure [OF pure_heap_get_template]])
    apply (rule frames_then_do [OF frames_pure [OF pure_heap_mkdtemp]])
    apply (rule frames_then_do [OF frames_pure [OF pure_heap_dict_lookup]])
    apply (rule frames_then_do [OF frames_pure [OF pure_heap_find_asset]])
    apply (rule frames_then_do [OF frames_pure [OF pure_heap_dict_lookup]])
    apply (rule frames_then_do [OF frames_pure [OF pure_heap_find_asset]])
    apply (rule frames_dict_copy)
    apply (intro frames_then_do frames_use_asset frames_if
        frames_pure [OF pure_heap_render] frames_pure [OF pure_heap_write_text]
        frames_pure [OF pure_heap_run_latexmk] frames_pure [OF pure_heap_read_bytes]
        frames_pure [OF pure_heap_raise] frames_pure [OF pure_heap_ret]
        frames_pure [OF pure_heap_query])
     apply assumption+
    done
  with L show ?thesis by (simp add: frames_def)
qed

section \<open>Evaluation of the concrete worlds\<close>

lemmas demo_simps = demo_world_def demo_files_def demo_template_def
  mkdtemp_def os_path_join_def os_mkdir_def locate_def
  abs_parts_def Path_def joinpath_def node_at_def lit_def slash_def dotdot_def
  write_text_def open_w_def utf8_encode_def utf8_char_def stat_def exists_def
  latex_escape_def dict_get_def replacements_def substitutions_def backslash_def
  path_converter_def fsencode_def fs_char_def name_too_long_def name_max_def
  ignore_error_def path_str_def Let_def

lemmas run_simps = render_and_compile_def render_and_compile_chief_def then_do_def ret_def
  raise_def print_def get_template_def render_def run_latexmk_def run_def read_bytes_def
  dict_lookup_def find_asset_def dict_copy_def dict_set_def use_asset_def
  copy_asset_to_workdir_def copyfile_def samefile_def stat_probe_def resolve_asset_path_def
  resolve_def path_cwd_def name_def path_str_def query_def and_then_def





section \<open>Claims\<close>

text \<open>
  Claim C1. \<open>latex_escape\<close> returns the empty string for \<^verbatim>\<open>None\<close>. For every other
  value it returns what the specification describes: the stringified input with the
  substitutions applied in the stated priority (backslash first), text introduced by a
  substitution never being escaped again. Spelled out character by character: each of
  the ten special characters becomes its fixed sequence and every other code point
  (newline and non-ASCII text included) is copied unchanged.
\<close>

theorem latex_escape_spec:
  "latex_escape PyNone = []
   \<and> (v \<noteq> PyNone \<longrightarrow> latex_escape v = escape_in_order (py_str v))
   \<and> (v \<noteq> PyNone \<longrightarrow> latex_escape v = concat (map
        (\<lambda>ch. if ch = of_char backslash then lit (backslash # ''textbackslash{}'')
          else if ch = of_char CHR ''&'' then lit [backslash, CHR ''&'']
          else if ch = of_char CHR ''%'' then lit [backslash, CHR ''%'']
          else if ch = of_char CHR ''$'' then lit [backslash, CHR ''$'']
          else if ch = of_char CHR ''#'' then lit [backslash, CHR ''#'']
          else if ch = of_char CHR ''_'' then lit [backslash, CHR ''_'']
          else if ch = of_char CHR ''{'' then lit [backslash, CHR ''{'']
          else if ch = of_char CHR ''}'' then lit [backslash, CHR ''}'']
          else if ch = of_char CHR ''~'' then lit (backslash # ''textasciitilde{}'')
          else if ch = of_char CHR ''^'' then lit (backslash # ''textasciicircum{}'')
          else [ch]) (py_str v)))"
proof (intro conjI impI)
  show "latex_escape PyNone = []"
    by (simp add: latex_escape_def)
next
  assume "v \<noteq> PyNone"
  then show "latex_escape v = escape_in_order (py_str v)"
    by (simp add: latex_escape_def escape_in_order_eq)
next
  assume "v \<noteq> PyNone"
  then have "latex_escape v = concat (map (\<lambda>ch. dict_get replacements ch [ch]) (py_str v))"
    by (simp add: latex_escape_def)
  then show "latex_escape v = concat (map
        (\<lambda>ch. if ch = of_char backslash then lit (backslash # ''textbackslash{}'')
          else if ch = of_char CHR ''&'' then lit [backslash, CHR ''&'']
          else if ch = of_char CHR ''%'' then lit [backslash, CHR ''%'']
          else if ch = of_char CHR ''$'' then lit [backslash, CHR ''$'']
          else if ch = of_char CHR ''#'' then lit [backslash, CHR ''#'']
          else if ch = of_char CHR ''_'' then lit [backslash, CHR ''_'']
          else if ch = of_char CHR ''{'' then lit [backslash, CHR ''{'']
          else if ch = of_char CHR ''}'' then lit [backslash, CHR ''}'']
          else if ch = of_char CHR ''~'' then lit (backslash # ''textasciitilde{}'')
          else if ch = of_char CHR ''^'' then lit (backslash # ''textasciicircum{}'')
          else [ch]) (py_str v))"
    by (simp only: replacements_table)
qed

theorem latex_escape_spec_witness:
  "PyStr (lit (backslash # ''R&D{x}'')) \<noteq> PyNone
   \<and> latex_escape (PyStr (lit (backslash # ''R&D{x}''))) =
       escape_in_order (lit (backslash # ''R&D{x}''))
   \<and> escape_in_order (lit (backslash # ''R&D{x}'')) =
       lit (backslash # ''textbackslash{}R'' @ backslash # ''&D'' @ backslash # ''{x''
            @ backslash # ''}'')"
proof (intro conjI)
  show ne: "PyStr (lit (backslash # ''R&D{x}'')) \<noteq> PyNone"
    by simp
  from ne show "latex_escape (PyStr (lit (backslash # ''R&D{x}''))) =
       escape_in_order (lit (backslash # ''R&D{x}''))"
    using latex_escape_spec [of "PyStr (lit (backslash # ''R&D{x}''))"] by simp
  show "escape_in_order (lit (backslash # ''R&D{x}'')) =
       lit (backslash # ''textbackslash{}R'' @ backslash # ''&D'' @ backslash # ''{x''
            @ backslash # ''}'')"
    by (simp add: escape_in_order_def subst_pass_def substitutions_def lit_def
        backslash_def)
qed

text \<open>
  Claim C2. For every input, the output of \<open>latex_escape\<close> has no unescaped special
  character: read from left to right it consists of ordinary characters and of the ten
  fixed escape sequences only, so every backslash, ampersand, percent, dollar, hash,
  underscore, brace, tilde or caret in it is part of a sequence the escaper emitted.
\<close>

theorem latex_escape_no_unescaped: "no_unescaped (latex_escape v)"
  by (simp add: latex_escape_def no_unescaped_escaped)

theorem latex_escape_no_unescaped_witness:
  "no_unescaped (latex_escape (PyStr (lit ''50%_$''))) \<and> \<not> no_unescaped (lit ''50%_$'')"
proof
  show "no_unescaped (latex_escape (PyStr (lit ''50%_$'')))"
    by (rule latex_escape_no_unescaped)
  show "\<not> no_unescaped (lit ''50%_$'')"
    by (simp add: substitutions_def lit_def backslash_def special_chars_def
        escape_sequences_def)
qed

text \<open>
  Claim C3. When the compiler exits with a non-zero status, \<open>render_and_compile\<close>
  raises a \<^verbatim>\<open>RuntimeError\<close> whose message holds the command line, the whole captured
  output of the compiler and the path of the working directory. The call removes
  nothing afterwards: the file system it leaves is the one the compiler left, so
  (when the compiler itself removed nothing) the working directory and the
  \<^verbatim>\<open>main.tex\<close> written into it are still there. The hypotheses say that the call
  gets as far as the compiler: the template is found and rendered, the working
  directory is created and \<^verbatim>\<open>main.tex\<close> is written.
\<close>

theorem compile_failure_raises_with_log:
  assumes tpl: "load_template P (files w) (cwd w) (cv_environment template_path)
                  (lit ''main.tex.j2'') = Inr t"
    and rnd: "t (heap w data) = Inr tex"
    and tmp: "mkdtemp (lit ''cv_build_'')
                (w\<lparr>console := console w @ [lit ''Registered Jinja filter: latex'']\<rparr>)
              = (Inr wdir, w2)"
    and wrt: "write_text (joinpath (Path wdir) (Path (lit ''main.tex''))) tex w2 = (Inr (), w3)"
    and cmp: "run_process P latexmk_cmd wdir (files w3) (cwd w3) = (Inr pr, fs4)"
    and rc: "returncode pr \<noteq> 0"
  shows "render_and_compile P data template_path w =
     (Inl (RuntimeError
        (lit ''Command failed:'' @ [newline]
         @ lit ''latexmk -lualatex -interaction=nonstopmode -halt-on-error main.tex''
         @ [newline, newline]
         @ lit ''---- Build output ----'' @ [newline]
         @ stdout pr
         @ [newline, newline] @ lit ''Temp build folder: '' @ wdir)),
      w3\<lparr>files := fs4, spawned := spawned w3 @ [(latexmk_cmd, wdir)]\<rparr>)
   \<and> ((\<forall>l n. map_of (files w3) l = Some n \<longrightarrow> map_of fs4 l = Some n) \<longrightarrow>
        stat (snd (render_and_compile P data template_path w)) (Path wdir) = Inr Dir
      \<and> (\<exists>enc. utf8_encode tex = Some enc
            \<and> stat (snd (render_and_compile P data template_path w))
                 (joinpath (Path wdir) (Path (lit ''main.tex''))) = Inr (File enc)))"
proof -
  let ?w1 = "w\<lparr>console := console w @ [lit ''Registered Jinja filter: latex'']\<rparr>"
  let ?w' = "w3\<lparr>files := fs4, spawned := spawned w3 @ [(latexmk_cmd, wdir)]\<rparr>"
  have a: "get_template P (cv_environment template_path) (lit ''main.tex.j2'') ?w1 = (Inr t, ?w1)"
    using tpl by (simp add: get_template_def)
  have b: "render t data ?w1 = (Inr tex, ?w1)"
    using rnd by (simp add: render_def)
  have c: "run_latexmk P wdir w3 =
     (Inl (RuntimeError
        (lit ''Command failed:'' @ [newline]
         @ lit ''latexmk -lualatex -interaction=nonstopmode -halt-on-error main.tex''
         @ [newline, newline]
         @ lit ''---- Build output ----'' @ [newline]
         @ stdout pr
         @ [newline, newline] @ lit ''Temp build folder: '' @ wdir)), ?w')"
    using run_latexmk_nonzero [OF cmp rc] by (simp only: latexmk_cmd_line)
  have res: "render_and_compile P data template_path w =
     (Inl (RuntimeError
        (lit ''Command failed:'' @ [newline]
         @ lit ''latexmk -lualatex -interaction=nonstopmode -halt-on-error main.tex''
         @ [newline, newline]
         @ lit ''---- Build output ----'' @ [newline]
         @ stdout pr
         @ [newline, newline] @ lit ''Temp build folder: '' @ wdir)), ?w')"
    unfolding render_and_compile_def Let_def
    by (simp add: then_do_def print_eq a b tmp wrt c)
  from wrt obtain enc where enc: "utf8_encode tex = Some enc"
    and texfile: "stat w3 (joinpath (Path wdir) (Path (lit ''main.tex''))) = Inr (File enc)"
    by (blast dest: write_text_written)
  from texfile have dir: "stat w3 (Path wdir) = Inr Dir"
    by (rule stat_parent [OF main_tex_filename])
  have still: "stat ?w' (Path wdir) = Inr Dir
      \<and> (\<exists>enc. utf8_encode tex = Some enc
            \<and> stat ?w' (joinpath (Path wdir) (Path (lit ''main.tex''))) = Inr (File enc))"
    if keep: "\<forall>l n. map_of (files w3) l = Some n \<longrightarrow> map_of fs4 l = Some n"
  proof -
    have sub: "\<And>l n. map_of (files w3) l = Some n \<Longrightarrow> map_of (files ?w') l = Some n"
      using keep by simp
    have cw: "cwd ?w' = cwd w3" by simp
    have "stat ?w' (Path wdir) = Inr Dir"
      using sub cw dir by (rule stat_mono)
    moreover have "stat ?w' (joinpath (Path wdir) (Path (lit ''main.tex''))) = Inr (File enc)"
      using sub cw texfile by (rule stat_mono)
    ultimately show ?thesis using enc by blast
  qed
  show ?thesis
    using res still by (simp only: snd_conv) blast
qed

theorem compile_failure_raises_with_log_witness:
  "fst (render_and_compile latexmk_fails 0 (lit ''templates'') demo_world) =
     Inl (RuntimeError
        (lit ''Command failed:'' @ [newline]
         @ lit ''latexmk -lualatex -interaction=nonstopmode -halt-on-error main.tex''
         @ [newline, newline]
         @ lit ''---- Build output ----'' @ [newline]
         @ lit ''! Undefined control sequence.''
         @ [newline, newline] @ lit ''Temp build folder: '' @ lit ''/tmp/cv_build_x1''))
   \<and> stat (snd (render_and_compile latexmk_fails 0 (lit ''templates'') demo_world))
        (Path (lit ''/tmp/cv_build_x1'')) = Inr Dir"
proof -
  let ?w1 = "demo_world\<lparr>console := console demo_world @ [lit ''Registered Jinja filter: latex'']\<rparr>"
  let ?tex = "lit ''Hello R'' @ lit [backslash, CHR ''&''] @ lit ''D''"
  define w2 where "w2 = snd (mkdtemp (lit ''cv_build_'') ?w1)"
  define w3 where "w3 = snd (write_text
      (joinpath (Path (lit ''/tmp/cv_build_x1'')) (Path (lit ''main.tex''))) ?tex w2)"
  have tpl: "load_template latexmk_fails (files demo_world) (cwd demo_world)
      (cv_environment (lit ''templates'')) (lit ''main.tex.j2'') = Inr demo_template"
    by (simp add: latexmk_fails_def)
  have rnd: "demo_template (heap demo_world 0) = Inr ?tex"
    by (simp add: demo_simps)
  have tmp: "mkdtemp (lit ''cv_build_'') ?w1 = (Inr (lit ''/tmp/cv_build_x1''), w2)"
    by (simp add: w2_def prod_eq_iff demo_simps)
  have wrt: "write_text (joinpath (Path (lit ''/tmp/cv_build_x1'')) (Path (lit ''main.tex'')))
      ?tex w2 = (Inr (), w3)"
    by (simp add: w3_def w2_def prod_eq_iff demo_simps)
  have cmp: "run_process latexmk_fails latexmk_cmd (lit ''/tmp/cv_build_x1'') (files w3) (cwd w3)
      = (Inr \<lparr>returncode = 1, stdout = lit ''! Undefined control sequence.''\<rparr>, files w3)"
    by (simp add: latexmk_fails_def)
  have rc: "returncode \<lparr>returncode = 1, stdout = lit ''! Undefined control sequence.''\<rparr> \<noteq> 0"
    by simp
  note th = compile_failure_raises_with_log [OF tpl rnd tmp wrt cmp rc]
  have keep: "\<forall>l n. map_of (files w3) l = Some n \<longrightarrow> map_of (files w3) l = Some n"
    by simp
  have "fst (render_and_compile latexmk_fails 0 (lit ''templates'') demo_world) =
     Inl (RuntimeError
        (lit ''Command failed:'' @ [newline]
         @ lit ''latexmk -lualatex -interaction=nonstopmode -halt-on-error main.tex''
         @ [newline, newline]
         @ lit ''---- Build output ----'' @ [newline]
         @ lit ''! Undefined control sequence.''
         @ [newline, newline] @ lit ''Temp build folder: '' @ lit ''/tmp/cv_build_x1''))"
    by (simp add: th [THEN conjunct1])
  moreover have "stat (snd (render_and_compile latexmk_fails 0 (lit ''templates'') demo_world))
        (Path (lit ''/tmp/cv_build_x1'')) = Inr Dir"
    by (rule th [THEN conjunct2, THEN mp, OF keep, THEN conjunct1])
  ultimately show ?thesis by (rule conjI)
qed

text \<open>
  Claim C4. When the compiler exits with status zero and \<^verbatim>\<open>main.pdf\<close> does not
  exist in the working directory, \<open>render_and_compile\<close> and
  \<open>render_and_compile_chief\<close> raise the \<^verbatim>\<open>RuntimeError\<close> that reports the missing
  output instead of returning a result, and they have run the compiler exactly once:
  the record of processes has grown by this one entry. The hypotheses say, statement
  by statement, that the call gets as far as the compiler.
\<close>

theorem missing_pdf_is_invariant_error:
  "(load_template P (files w) (cwd w) (cv_environment template_path)
        (lit ''main.tex.j2'') = Inr t
    \<and> t (heap w data) = Inr tex
    \<and> mkdtemp (lit ''cv_build_'')
        (w\<lparr>console := console w @ [lit ''Registered Jinja filter: latex'']\<rparr>)
        = (Inr wdir, w2)
    \<and> write_text (joinpath (Path wdir) (Path (lit ''main.tex''))) tex w2 = (Inr (), w3)
    \<and> run_process P latexmk_cmd wdir (files w3) (cwd w3) = (Inr pr, fs4)
    \<and> returncode pr = 0
    \<and> exists (w3\<lparr>files := fs4, spawned := spawned w3 @ [(latexmk_cmd, wdir)]\<rparr>)
          (joinpath (Path wdir) (Path (lit ''main.pdf''))) = Inr False
    \<longrightarrow> render_and_compile P data template_path w =
          (Inl (RuntimeError
             (lit ''Build succeeded but main.pdf was not created (unexpected).'')),
           w3\<lparr>files := fs4, spawned := spawned w3 @ [(latexmk_cmd, wdir)]\<rparr>)
        \<and> spawned w3 = spawned w)
   \<and>
   (resolve v (Path template_path') = Inr template_dir
    \<and> resolve v (path_cwd v) = Inr project_root
    \<and> load_template P (files v) (cwd v)
        (chief_environment (path_str template_dir)) template_name = Inr t'
    \<and> mkdtemp (lit ''cv_build_'') v = (Inr made, v1)
    \<and> find_asset (dict_get (heap v cdata) (lit ''photo_banner_path'') PyNone)
         template_dir project_root (lit ''photo_banner.png'') v1 = (Inr banner_src, v1)
    \<and> find_asset (dict_get (heap v cdata) (lit ''highlight_path'') PyNone)
         template_dir project_root (lit ''highlight.png'') v1 = (Inr highlight_src, v1)
    \<and> use_asset banner_src (Path made) (next_addr v) (lit ''photo_banner_path'')
         (v1\<lparr>heap := (heap v1)(next_addr v := heap v cdata),
             next_addr := Suc (next_addr v)\<rparr>) = (Inr (), v2)
    \<and> use_asset highlight_src (Path made) (next_addr v) (lit ''highlight_path'') v2
         = (Inr (), v3)
    \<and> t' (heap v3 (next_addr v)) = Inr tex'
    \<and> write_text (joinpath (Path made) (Path (lit ''main.tex''))) tex' v3 = (Inr (), v4)
    \<and> run_process P latexmk_cmd (path_str (Path made)) (files v4) (cwd v4) = (Inr pr', fs5)
    \<and> returncode pr' = 0
    \<and> exists (v4\<lparr>files := fs5,
                  spawned := spawned v4 @ [(latexmk_cmd, path_str (Path made))]\<rparr>)
          (joinpath (Path made) (Path (lit ''main.pdf''))) = Inr False
    \<longrightarrow> render_and_compile_chief P cdata template_path' template_name v =
          (Inl (RuntimeError
             (lit ''Build succeeded but main.pdf was not created (unexpected).'')),
           v4\<lparr>files := fs5,
              spawned := spawned v4 @ [(latexmk_cmd, path_str (Path made))]\<rparr>)
        \<and> spawned v4 = spawned v)"
proof (intro conjI impI)
  assume h: "load_template P (files w) (cwd w) (cv_environment template_path)
        (lit ''main.tex.j2'') = Inr t
    \<and> t (heap w data) = Inr tex
    \<and> mkdtemp (lit ''cv_build_'')
        (w\<lparr>console := console w @ [lit ''Registered Jinja filter: latex'']\<rparr>)
        = (Inr wdir, w2)
    \<and> write_text (joinpath (Path wdir) (Path (lit ''main.tex''))) tex w2 = (Inr (), w3)
    \<and> run_process P latexmk_cmd wdir (files w3) (cwd w3) = (Inr pr, fs4)
    \<and> returncode pr = 0
    \<and> exists (w3\<lparr>files := fs4, spawned := spawned w3 @ [(latexmk_cmd, wdir)]\<rparr>)
          (joinpath (Path wdir) (Path (lit ''main.pdf''))) = Inr False"
  let ?w1 = "w\<lparr>console := console w @ [lit ''Registered Jinja filter: latex'']\<rparr>"
  have a: "get_template P (cv_environment template_path) (lit ''main.tex.j2'') ?w1 = (Inr t, ?w1)"
    using h by (simp add: get_template_def)
  have b: "render t data ?w1 = (Inr tex, ?w1)"
    using h by (simp add: render_def)
  have c: "run_latexmk P wdir w3 =
      (Inr (), w3\<lparr>files := fs4, spawned := spawned w3 @ [(latexmk_cmd, wdir)]\<rparr>)"
    using h by (simp add: run_latexmk_zero)
  from h have tmp: "mkdtemp (lit ''cv_build_'') ?w1 = (Inr wdir, w2)"
    and wrt: "write_text (joinpath (Path wdir) (Path (lit ''main.tex''))) tex w2 = (Inr (), w3)"
    and nopdf: "exists (w3\<lparr>files := fs4, spawned := spawned w3 @ [(latexmk_cmd, wdir)]\<rparr>)
          (joinpath (Path wdir) (Path (lit ''main.pdf''))) = Inr False"
    by simp_all
  show "render_and_compile P data template_path w =
          (Inl (RuntimeError
             (lit ''Build succeeded but main.pdf was not created (unexpected).'')),
           w3\<lparr>files := fs4, spawned := spawned w3 @ [(latexmk_cmd, wdir)]\<rparr>)"
    unfolding render_and_compile_def Let_def
    using nopdf by (simp add: then_do_def print_eq a b tmp wrt c raise_def query_def)
  from wrt obtain l bs where "w3 = w2\<lparr>files := AList.update l (File bs) (files w2)\<rparr>"
    by (blast dest: write_text_written)
  then have "spawned w3 = spawned w2" by simp
  also have "\<dots> = spawned ?w1" using tmp by (rule mkdtemp_new)
  finally show "spawned w3 = spawned w" by simp
next
  assume h: "resolve v (Path template_path') = Inr template_dir
    \<and> resolve v (path_cwd v) = Inr project_root
    \<and> load_template P (files v) (cwd v)
        (chief_environment (path_str template_dir)) template_name = Inr t'
    \<and> mkdtemp (lit ''cv_build_'') v = (Inr made, v1)
    \<and> find_asset (dict_get (heap v cdata) (lit ''photo_banner_path'') PyNone)
         template_dir project_root (lit ''photo_banner.png'') v1 = (Inr banner_src, v1)
    \<and> find_asset (dict_get (heap v cdata) (lit ''highlight_path'') PyNone)
         template_dir project_root (lit ''highlight.png'') v1 = (Inr highlight_src, v1)
    \<and> use_asset banner_src (Path made) (next_addr v) (lit ''photo_banner_path'')
         (v1\<lparr>heap := (heap v1)(next_addr v := heap v cdata),
             next_addr := Suc (next_addr v)\<rparr>) = (Inr (), v2)
    \<and> use_asset highlight_src (Path made) (next_addr v) (lit ''highlight_path'') v2
         = (Inr (), v3)
    \<and> t' (heap v3 (next_addr v)) = Inr tex'
    \<and> write_text (joinpath (Path made) (Path (lit ''main.tex''))) tex' v3 = (Inr (), v4)
    \<and> run_process P latexmk_cmd (path_str (Path made)) (files v4) (cwd v4) = (Inr pr', fs5)
    \<and> returncode pr' = 0
    \<and> exists (v4\<lparr>files := fs5,
                  spawned := spawned v4 @ [(latexmk_cmd, path_str (Path made))]\<rparr>)
          (joinpath (Path made) (Path (lit ''main.pdf''))) = Inr False"
  have r1: "query (\<lambda>w. resolve w (Path template_path')) v = (Inr template_dir, v)"
    and r2: "query (\<lambda>w. resolve w (path_cwd w)) v = (Inr project_root, v)"
    using h by (simp_all add: query_def)
  have a: "get_template P (chief_environment (path_str template_dir))
             template_name v = (Inr t', v)"
    using h by (simp add: get_template_def)
  from h have tmp: "mkdtemp (lit ''cv_build_'') v = (Inr made, v1)" by simp
  have hp: "heap v1 = heap v" and na: "next_addr v1 = next_addr v"
    using tmp by (rule mkdtemp_new)+
  have l1: "dict_lookup cdata (lit ''photo_banner_path'') v1 =
        (Inr (dict_get (heap v cdata) (lit ''photo_banner_path'') PyNone), v1)"
    and l2: "dict_lookup cdata (lit ''highlight_path'') v1 =
        (Inr (dict_get (heap v cdata) (lit ''highlight_path'') PyNone), v1)"
    by (simp_all add: dict_lookup_def hp)
  have cp: "dict_copy cdata v1 =
      (Inr (next_addr v), v1\<lparr>heap := (heap v1)(next_addr v := heap v cdata),
             next_addr := Suc (next_addr v)\<rparr>)"
    by (simp add: dict_copy_def hp na)
  have rn: "render t' (next_addr v) v3 = (Inr tex', v3)"
    using h by (simp add: render_def)
  have c: "run_latexmk P (path_str (Path made)) v4 =
      (Inr (), v4\<lparr>files := fs5,
          spawned := spawned v4 @ [(latexmk_cmd, path_str (Path made))]\<rparr>)"
    using h by (simp add: run_latexmk_zero)
  show "render_and_compile_chief P cdata template_path' template_name v =
          (Inl (RuntimeError
             (lit ''Build succeeded but main.pdf was not created (unexpected).'')),
           v4\<lparr>files := fs5,
              spawned := spawned v4 @ [(latexmk_cmd, path_str (Path made))]\<rparr>)"
    unfolding render_and_compile_chief_def Let_def
    using h by (simp add: then_do_def r1 r2 a tmp l1 l2 cp rn c raise_def query_def)
  from h have u1: "use_asset banner_src (Path made) (next_addr v) (lit ''photo_banner_path'')
         (v1\<lparr>heap := (heap v1)(next_addr v := heap v cdata),
             next_addr := Suc (next_addr v)\<rparr>) = (Inr (), v2)"
    and u2: "use_asset highlight_src (Path made) (next_addr v) (lit ''highlight_path'') v2
         = (Inr (), v3)"
    and wrt: "write_text (joinpath (Path made) (Path (lit ''main.tex''))) tex' v3 = (Inr (), v4)"
    by simp_all
  from wrt obtain l bs where "v4 = v3\<lparr>files := AList.update l (File bs) (files v3)\<rparr>"
    by (blast dest: write_text_written)
  then have "spawned v4 = spawned v3" by simp
  also have "\<dots> = spawned v2"
    using use_asset_spawned [of highlight_src "Path made" "next_addr v" "lit ''highlight_path''" v2]
    by (simp add: u2)
  also have "\<dots> = spawned v1"
    using use_asset_spawned [of banner_src "Path made" "next_addr v" "lit ''photo_banner_path''"
        "v1\<lparr>heap := (heap v1)(next_addr v := heap v cdata), next_addr := Suc (next_addr v)\<rparr>"]
    by (simp add: u1)
  also have "\<dots> = spawned v" using tmp by (rule mkdtemp_new)
  finally show "spawned v4 = spawned v" .
qed

theorem missing_pdf_is_invariant_error_witness:
  "fst (render_and_compile latexmk_no_pdf 0 (lit ''templates'') demo_world) =
     Inl (RuntimeError (lit ''Build succeeded but main.pdf was not created (unexpected).''))
   \<and> spawned (snd (render_and_compile latexmk_no_pdf 0 (lit ''templates'') demo_world)) =
       [(latexmk_cmd, lit ''/tmp/cv_build_x1'')]
   \<and> fst (render_and_compile_chief latexmk_no_pdf 0 (lit ''templates'')
            (lit ''main_chief.tex.j2'') demo_world) =
     Inl (RuntimeError (lit ''Build succeeded but main.pdf was not created (unexpected).''))
   \<and> spawned (snd (render_and_compile_chief latexmk_no_pdf 0 (lit ''templates'')
            (lit ''main_chief.tex.j2'') demo_world)) =
       [(latexmk_cmd, lit ''/tmp/cv_build_x1'')]"
proof -
  let ?w1 = "demo_world\<lparr>console := console demo_world @ [lit ''Registered Jinja filter: latex'']\<rparr>"
  let ?tex = "lit ''Hello R'' @ lit [backslash, CHR ''&''] @ lit ''D''"
  let ?dir = "lit ''/tmp/cv_build_x1''"
  let ?pr = "\<lparr>returncode = 0, stdout = lit ''Latexmk: Nothing to do''\<rparr>"
  let ?banner = "Some (Path (lit ''/proj/templates/photo_banner.png''))"
  let ?td = "Path (lit ''/proj/templates'')"
  let ?root = "Path (lit ''/proj'')"
  define w2 where "w2 = snd (mkdtemp (lit ''cv_build_'') ?w1)"
  define w3 where "w3 = snd (write_text (joinpath (Path ?dir) (Path (lit ''main.tex''))) ?tex w2)"
  define v1 where "v1 = snd (mkdtemp (lit ''cv_build_'') demo_world)"
  define v2 where "v2 = snd (use_asset ?banner (Path ?dir) (next_addr demo_world)
      (lit ''photo_banner_path'')
      (v1\<lparr>heap := (heap v1)(next_addr demo_world := heap demo_world 0),
          next_addr := Suc (next_addr demo_world)\<rparr>))"
  define v4 where "v4 = snd (write_text (joinpath (Path ?dir) (Path (lit ''main.tex''))) ?tex v2)"
  have h1: "load_template latexmk_no_pdf (files demo_world) (cwd demo_world)
        (cv_environment (lit ''templates'')) (lit ''main.tex.j2'') = Inr demo_template
    \<and> demo_template (heap demo_world 0) = Inr ?tex
    \<and> mkdtemp (lit ''cv_build_'') ?w1 = (Inr ?dir, w2)
    \<and> write_text (joinpath (Path ?dir) (Path (lit ''main.tex''))) ?tex w2 = (Inr (), w3)
    \<and> run_process latexmk_no_pdf latexmk_cmd ?dir (files w3) (cwd w3) = (Inr ?pr, files w3)
    \<and> returncode ?pr = 0
    \<and> exists (w3\<lparr>files := files w3, spawned := spawned w3 @ [(latexmk_cmd, ?dir)]\<rparr>)
          (joinpath (Path ?dir) (Path (lit ''main.pdf''))) = Inr False"
    by (simp add: w3_def w2_def prod_eq_iff latexmk_no_pdf_def demo_simps)
  have h2: "resolve demo_world (Path (lit ''templates'')) = Inr ?td
    \<and> resolve demo_world (path_cwd demo_world) = Inr ?root
    \<and> load_template latexmk_no_pdf (files demo_world) (cwd demo_world)
        (chief_environment (path_str ?td)) (lit ''main_chief.tex.j2'') = Inr demo_template
    \<and> mkdtemp (lit ''cv_build_'') demo_world = (Inr ?dir, v1)
    \<and> find_asset (dict_get (heap demo_world 0) (lit ''photo_banner_path'') PyNone)
         ?td ?root (lit ''photo_banner.png'') v1 = (Inr ?banner, v1)
    \<and> find_asset (dict_get (heap demo_world 0) (lit ''highlight_path'') PyNone)
         ?td ?root (lit ''highlight.png'') v1 = (Inr None, v1)
    \<and> use_asset ?banner (Path ?dir) (next_addr demo_world) (lit ''photo_banner_path'')
         (v1\<lparr>heap := (heap v1)(next_addr demo_world := heap demo_world 0),
             next_addr := Suc (next_addr demo_world)\<rparr>) = (Inr (), v2)
    \<and> use_asset None (Path ?dir) (next_addr demo_world) (lit ''highlight_path'') v2
         = (Inr (), v2)
    \<and> demo_template (heap v2 (next_addr demo_world)) = Inr ?tex
    \<and> write_text (joinpath (Path ?dir) (Path (lit ''main.tex''))) ?tex v2 = (Inr (), v4)
    \<and> run_process latexmk_no_pdf latexmk_cmd (path_str (Path ?dir)) (files v4) (cwd v4)
         = (Inr ?pr, files v4)
    \<and> returncode ?pr = 0
    \<and> exists (v4\<lparr>files := files v4,
                  spawned := spawned v4 @ [(latexmk_cmd, path_str (Path ?dir))]\<rparr>)
          (joinpath (Path ?dir) (Path (lit ''main.pdf''))) = Inr False"
    by (simp add: v4_def v2_def v1_def prod_eq_iff latexmk_no_pdf_def run_simps demo_simps)
  note th = missing_pdf_is_invariant_error [where P = latexmk_no_pdf and w = demo_world
      and template_path = "lit ''templates''" and t = demo_template and data = 0
      and tex = ?tex and wdir = ?dir and ?w2.0 = w2 and ?w3.0 = w3 and pr = ?pr
      and ?fs4.0 = "files w3" and v = demo_world and template_path' = "lit ''templates''"
      and template_name = "lit ''main_chief.tex.j2''" and t' = demo_template
      and template_dir = ?td and project_root = ?root
      and made = ?dir and ?v1.0 = v1 and cdata = 0 and banner_src = ?banner
      and highlight_src = None and ?v2.0 = v2 and ?v3.0 = v2 and tex' = ?tex
      and ?v4.0 = v4 and pr' = ?pr and ?fs5.0 = "files v4"]
  note one = th [THEN conjunct1, THEN mp, OF h1]
  note two = th [THEN conjunct2, THEN mp, OF h2]
  have p: "path_str (Path ?dir) = ?dir"
    by (simp add: run_simps demo_simps)
  have "fst (render_and_compile latexmk_no_pdf 0 (lit ''templates'') demo_world) =
     Inl (RuntimeError (lit ''Build succeeded but main.pdf was not created (unexpected).''))"
    by (simp add: one [THEN conjunct1])
  moreover
  have "spawned (snd (render_and_compile latexmk_no_pdf 0 (lit ''templates'') demo_world)) =
       [(latexmk_cmd, ?dir)]"
    unfolding one [THEN conjunct1]
    by (simp add: one [THEN conjunct2] demo_world_def)
  moreover
  have "fst (render_and_compile_chief latexmk_no_pdf 0 (lit ''templates'')
            (lit ''main_chief.tex.j2'') demo_world) =
     Inl (RuntimeError (lit ''Build succeeded but main.pdf was not created (unexpected).''))"
    by (simp add: two [THEN conjunct1])
  moreover
  have "spawned (snd (render_and_compile_chief latexmk_no_pdf 0 (lit ''templates'')
            (lit ''main_chief.tex.j2'') demo_world)) = [(latexmk_cmd, ?dir)]"
    unfolding two [THEN conjunct1]
    by (simp add: two [THEN conjunct2] p demo_world_def)
  ultimately show ?thesis by (intro conjI)
qed









text \<open>
  Claim C8. Neither function changes the dictionary the caller passed:
  \<open>render_and_compile\<close> leaves the whole heap as it was, and
  \<open>render_and_compile_chief\<close> leaves every dictionary that was allocated before the
  call as it was, whether it returns or raises; the base names of the assets are
  written into the copy it allocates.
\<close>

theorem caller_record_not_mutated:
  "heap (snd (render_and_compile P data template_path w)) = heap w
   \<and> (\<forall>a. a < next_addr v \<longrightarrow>
        heap (snd (render_and_compile_chief P cdata template_path' template_name v)) a
          = heap v a)"
proof
  show "heap (snd (render_and_compile P data template_path w)) = heap w"
    using render_and_compile_pure_heap [of P data template_path]
    by (simp add: pure_heap_def)
  have "kept (next_addr v) v
          (snd (render_and_compile_chief P cdata template_path' template_name v))"
    by (rule render_and_compile_chief_frames) simp
  then show "\<forall>a. a < next_addr v \<longrightarrow>
        heap (snd (render_and_compile_chief P cdata template_path' template_name v)) a
          = heap v a"
    by (simp add: kept_def)
qed

theorem caller_record_not_mutated_witness:
  "heap (snd (render_and_compile latexmk_ok 0 (lit ''templates'') demo_world)) 0
     = [lit ''first_name'' \<mapsto> PyStr (lit ''R&D'')]
   \<and> 0 < next_addr demo_world
   \<and> heap (snd (render_and_compile_chief latexmk_ok 0 (lit ''templates'')
                 (lit ''main_chief.tex.j2'') demo_world)) 0
     = [lit ''first_name'' \<mapsto> PyStr (lit ''R&D'')]
   \<and> heap (snd (render_and_compile_chief latexmk_ok 0 (lit ''templates'')
                 (lit ''main_chief.tex.j2'') demo_world)) 1 (lit ''photo_banner_path'')
     = Some (PyStr (lit ''photo_banner.png''))"
proof -
  note th = caller_record_not_mutated [where P = latexmk_ok and data = 0
      and template_path = "lit ''templates''" and w = demo_world and cdata = 0
      and template_path' = "lit ''templates''"
      and template_name = "lit ''main_chief.tex.j2''" and v = demo_world]
  have h0: "heap demo_world 0 = [lit ''first_name'' \<mapsto> PyStr (lit ''R&D'')]"
    by (simp add: demo_world_def)
  have lim: "0 < next_addr demo_world"
    by (simp add: demo_world_def)
  from th [THEN conjunct1] h0
  have "heap (snd (render_and_compile latexmk_ok 0 (lit ''templates'') demo_world)) 0
     = [lit ''first_name'' \<mapsto> PyStr (lit ''R&D'')]"
    by simp
  moreover from th [THEN conjunct2, THEN spec, THEN mp, OF lim] h0
  have "heap (snd (render_and_compile_chief latexmk_ok 0 (lit ''templates'')
                 (lit ''main_chief.tex.j2'') demo_world)) 0
     = [lit ''first_name'' \<mapsto> PyStr (lit ''R&D'')]"
    by simp
  moreover have "heap (snd (render_and_compile_chief latexmk_ok 0 (lit ''templates'')
                 (lit ''main_chief.tex.j2'') demo_world)) 1 (lit ''photo_banner_path'')
     = Some (PyStr (lit ''photo_banner.png''))"
    by (simp add: latexmk_ok_def run_simps demo_simps)
  ultimately show ?thesis using lim by blast
qed



text \<open>
  Claim C10. On strings the escaper is a monoid homomorphism for concatenation:
  escaping \<open>s @ t\<close> gives the escaped \<open>s\<close> followed by the escaped \<open>t\<close>, and the
  empty string is escaped to the empty string.
\<close>

theorem latex_escape_homomorphism:
  "latex_escape (PyStr (s @ t)) = latex_escape (PyStr s) @ latex_escape (PyStr t)
   \<and> latex_escape (PyStr []) = []"
  by (simp add: latex_escape_def)

theorem latex_escape_homomorphism_witness:
  "latex_escape (PyStr (lit ''R&'' @ lit ''D_''))
     = lit (''R'' @ backslash # ''&'') @ lit (''D'' @ backslash # ''_'')"
proof -
  have "latex_escape (PyStr (lit ''R&'')) = lit (''R'' @ backslash # ''&'')"
    by (simp add: latex_escape_def dict_get_def replacements_def substitutions_def
        lit_def backslash_def)
  moreover have "latex_escape (PyStr (lit ''D_'')) = lit (''D'' @ backslash # ''_'')"
    by (simp add: latex_escape_def dict_get_def replacements_def substitutions_def
        lit_def backslash_def)
  ultimately show ?thesis
    using latex_escape_homomorphism [of "lit ''R&''" "lit ''D_''"] by simp
qed

end
